theory Spec2Isabelle
  imports Complex_Main
begin

section \<open>Extraction strategies (cheerioScraper.ts, scraper.ts)\<close>

text \<open>
  \<^verbatim>\<open>interface ScrapeResult { success: boolean; content?: string; error?: string; }\<close>
  An optional property that is left out is \<open>None\<close>.
\<close>

record ScrapeResult =
  success :: bool
  content :: "string option"
  error :: "string option"

text \<open>
  A value thrown inside a strategy. The handlers only look at
  \<^verbatim>\<open>error instanceof Error ? error.message : String(error)\<close>, so a thrown value is
  either an \<^verbatim>\<open>Error\<close> with its message or anything else with its \<^verbatim>\<open>String(...)\<close>
  rendering.
\<close>

datatype js_exn = ErrorObject string | OtherThrown string

text \<open>
  What the library calls of a strategy deliver: for Cheerio the request, the parse and the
  joining of the paragraphs (lines 19 to 67 of cheerioScraper.ts), for Puppeteer the browser
  launch, the navigation, the in-page evaluation and the closing of the browser (lines 21 to
  78 of scraper.ts). Either one of these calls throws (network error, timeout, parse error),
  or the text \<^verbatim>\<open>content\<close> is there. Strings are lists of code units and
  \<^verbatim>\<open>content.length\<close> is the length of the list.
\<close>

datatype page_outcome = PageThrows js_exn | PageText string

definition digitChar :: "nat \<Rightarrow> char" where
  "digitChar n = ''0123456789'' ! n"

text \<open>The decimal rendering of a length inside a template literal.\<close>

function decimal :: "nat \<Rightarrow> string" where
  "decimal n = (if n < 10 then [digitChar n] else decimal (n div 10) @ [digitChar (n mod 10)])"
  by pat_completeness auto
termination
  by (relation "measure (\<lambda>n. n)") auto

declare decimal.simps [simp del]

text \<open>\<^verbatim>\<open>error instanceof Error ? error.message : String(error)\<close>\<close>

fun errorMessage :: "js_exn \<Rightarrow> string" where
  "errorMessage (ErrorObject m) = m"
| "errorMessage (OtherThrown s) = s"

text \<open>
  The statements after the library calls, inside the \<^verbatim>\<open>try\<close> block, the same in both files:
  \<^verbatim>\<open>
  if (!content || content.length < 200) {
    return { success: false,
             error: `Content too short (${content.length} chars, minimum 200)` };
  }
  return { success: true, content: content };
  \<close>
  \<^verbatim>\<open>!content\<close> holds of the empty string.
\<close>

definition thresholdCheck :: "string \<Rightarrow> ScrapeResult" where
  "thresholdCheck c =
     (if c = [] \<or> length c < 200
      then \<lparr>success = False, content = None,
            error = Some (''Content too short ('' @ decimal (length c) @ '' chars, minimum 200)'')\<rparr>
      else \<lparr>success = True, content = Some c, error = None\<rparr>)"

text \<open>The \<^verbatim>\<open>try\<close> block: a throwing library call leaves it with the thrown value.\<close>

definition tryBlock :: "page_outcome \<Rightarrow> js_exn + ScrapeResult" where
  "tryBlock p = (case p of PageThrows e \<Rightarrow> Inl e | PageText c \<Rightarrow> Inr (thresholdCheck c))"

text \<open>
  The \<^verbatim>\<open>catch\<close> block, the same in both files up to the logging (and, for Puppeteer,
  \<^verbatim>\<open>browser.close().catch(() => {})\<close>, whose own failure is swallowed):
  \<^verbatim>\<open>return { success: false, error: errorMessage };\<close>
\<close>

definition catchBlock :: "js_exn \<Rightarrow> ScrapeResult" where
  "catchBlock e = \<lparr>success = False, content = None, error = Some (errorMessage e)\<rparr>"

text \<open>
  The two strategies. The first argument stands for the library calls. The result is a sum
  so that a value thrown out of the function would be visible as \<open>Inl\<close>.
\<close>

definition scrapeArticleContentWithCheerio ::
  "(string \<Rightarrow> page_outcome) \<Rightarrow> string \<Rightarrow> js_exn + ScrapeResult" where
  "scrapeArticleContentWithCheerio fetch u =
     (case tryBlock (fetch u) of Inl e \<Rightarrow> Inr (catchBlock e) | Inr r \<Rightarrow> Inr r)"

definition scrapeArticleContentWithPuppeteer ::
  "(string \<Rightarrow> page_outcome) \<Rightarrow> string \<Rightarrow> js_exn + ScrapeResult" where
  "scrapeArticleContentWithPuppeteer render u =
     (case tryBlock (render u) of Inl e \<Rightarrow> Inr (catchBlock e) | Inr r \<Rightarrow> Inr r)"


section \<open>The success rate as JavaScript computes it\<close>

text \<open>
  \<^verbatim>\<open>((totalSuccess / stats.total) * 100).toFixed(1)\<close> works on IEEE 754 binary64
  numbers. A finite non-negative binary64 number is \<open>mant * 2 ^ expo\<close> with
  \<open>mant < 2 ^ 53\<close>; the counters are integers below \<open>2 ^ 53\<close> and so are such numbers
  with exponent 0. The quotient and the product are the exact results rounded to the
  nearest such number, ties to the even significand. The numbers of this computation are
  0 or lie between \<open>2 ^ - 53\<close> and \<open>2 ^ 60\<close>, far from overflow and from the subnormal
  range, so the exponent is not bounded here.
\<close>

record double =
  mant :: nat
  expo :: int

definition ofCount :: "nat \<Rightarrow> double" where
  "ofCount n = \<lparr>mant = n, expo = 0\<rparr>"

definition valueOf :: "double \<Rightarrow> real" where
  "valueOf d = real (mant d) * 2 powi (expo d)"

fun bitLength :: "nat \<Rightarrow> nat" where
  "bitLength n = (if n = 0 then 0 else Suc (bitLength (n div 2)))"

declare bitLength.simps [simp del]

text \<open>The integer nearest to \<open>a / b\<close>, a tie going to the even one.\<close>

definition roundHalfEven :: "nat \<Rightarrow> nat \<Rightarrow> nat" where
  "roundHalfEven a b =
     (let q = a div b; r = a mod b
      in if 2 * r < b then q else if b < 2 * r then q + 1 else if even q then q else q + 1)"

text \<open>The \<open>k\<close> with \<open>2 ^ 52 \<le> (a / b) * 2 ^ k < 2 ^ 53\<close>, for positive \<open>a\<close> and \<open>b\<close>.\<close>

definition scaleFor :: "nat \<Rightarrow> nat \<Rightarrow> int" where
  "scaleFor a b =
     (let la = bitLength a; lb = bitLength b
      in if b * 2 ^ la \<le> a * 2 ^ lb then 52 - (int la - int lb) else 53 - (int la - int lb))"

text \<open>The binary64 number nearest to \<open>(a / b) * 2 ^ e\<close>.\<close>

definition nearestDouble :: "nat \<Rightarrow> nat \<Rightarrow> int \<Rightarrow> double" where
  "nearestDouble a b e =
     (if a = 0 then \<lparr>mant = 0, expo = 0\<rparr>
      else let k = scaleFor a b;
               m = (if 0 \<le> k then roundHalfEven (a * 2 ^ nat k) b
                    else roundHalfEven a (b * 2 ^ nat (- k)))
           in \<lparr>mant = m, expo = e - k\<rparr>)"

text \<open>\<^verbatim>\<open>x / y\<close> and \<^verbatim>\<open>x * y\<close> on such numbers, \<open>y\<close> not zero.\<close>

definition jsDivide :: "double \<Rightarrow> double \<Rightarrow> double" where
  "jsDivide x y = nearestDouble (mant x) (mant y) (expo x - expo y)"

definition jsTimes :: "double \<Rightarrow> double \<Rightarrow> double" where
  "jsTimes x y = nearestDouble (mant x * mant y) 1 (expo x + expo y)"

text \<open>
  \<^verbatim>\<open>x.toFixed(1)\<close>: with \<open>n\<close> the integer for which \<open>n / 10 - x\<close> is as close to zero
  as possible, the larger one if there are two, the digits of \<open>n\<close> with a point before the
  last one. \<open>toFixedTenths\<close> is that \<open>n\<close>.
\<close>

definition toFixedTenths :: "double \<Rightarrow> nat" where
  "toFixedTenths x =
     (if 0 \<le> expo x then 10 * mant x * 2 ^ nat (expo x)
      else (20 * mant x + 2 ^ nat (- expo x)) div (2 * 2 ^ nat (- expo x)))"

definition toFixed1 :: "double \<Rightarrow> string" where
  "toFixed1 x = (let n = toFixedTenths x in decimal (n div 10) @ ''.'' @ decimal (n mod 10))"

definition successRate :: "nat \<Rightarrow> nat \<Rightarrow> double" where
  "successRate totalSuccess statsTotal =
     jsTimes (jsDivide (ofCount totalSuccess) (ofCount statsTotal)) (ofCount 100)"

section \<open>The coordinator (main)\<close>

subsection \<open>Data\<close>

text \<open>
  A row of the table ArticleContents. The columns \<^verbatim>\<open>id\<close> and \<^verbatim>\<open>content\<close> are
  \<open>rowId\<close> and \<open>body\<close> here. A status is a nullable boolean: \<open>None\<close> is
  \<^verbatim>\<open>null\<close> (not attempted), \<open>Some True\<close> success, \<open>Some False\<close> failure.
\<close>

record ArticleContent =
  rowId :: nat
  articleId :: nat
  body :: string
  scrapeStatusCheerio :: "bool option"
  scrapeStatusPuppeteer :: "bool option"

text \<open>
  A row of the table Articles (its \<^verbatim>\<open>id\<close> is \<open>ident\<close>; a \<^verbatim>\<open>null\<close> column is
  \<open>None\<close>), and an article as \<^verbatim>\<open>Article.findAll({ include: [...] })\<close> returns it,
  with the rows of ArticleContents that refer to it.
\<close>

record Article =
  ident :: nat
  title :: "string option"
  url :: "string option"

record LoadedArticle = Article +
  ArticleContents :: "ArticleContent list"

record ScrapingStats =
  total :: nat
  cheerioSuccess :: nat
  cheerioFailed :: nat
  puppeteerSuccess :: nat
  puppeteerFailed :: nat
  skipped :: nat

text \<open>
  The object passed to \<^verbatim>\<open>update\<close>: a property that is left out is \<open>None\<close>. The code
  never passes \<^verbatim>\<open>null\<close> for a status.
\<close>

record UpdateValues =
  setBody :: "string option"
  setStatusCheerio :: "bool option"
  setStatusPuppeteer :: "bool option"

text \<open>What the run does to the outside, in order.\<close>

datatype event =
    DbAuthenticate
  | DbFindAll
  | CheerioAttempt string
  | PuppeteerAttempt string
  | DbCreate ArticleContent
  | DbUpdate nat UpdateValues
  | DbFindOne nat
  | Delay
  | LogSuccessRate string
  | DbClose
  | ProcessExit nat

text \<open>
  The outside: what the library calls of the two strategies deliver and whether a database
  call throws, each depending on the number of events before it (so the same URL may
  answer differently at different times).
\<close>

record env =
  cheerioFetch :: "nat \<Rightarrow> string \<Rightarrow> page_outcome"
  puppeteerRender :: "nat \<Rightarrow> string \<Rightarrow> page_outcome"
  dbFault :: "nat \<Rightarrow> js_exn option"

record run_state =
  articlesTable :: "Article list"
  contentsTable :: "ArticleContent list"
  stats :: ScrapingStats
  trace :: "event list"

text \<open>An awaited call either returns a value or throws, and has changed the state by then.\<close>

datatype 'a outcome = Returned 'a run_state | Threw js_exn run_state

fun andThen :: "'a outcome \<Rightarrow> ('a \<Rightarrow> run_state \<Rightarrow> 'b outcome) \<Rightarrow> 'b outcome" where
  "andThen (Returned v s) k = k v s"
| "andThen (Threw x s) k = Threw x s"

definition emit :: "event \<Rightarrow> run_state \<Rightarrow> run_state" where
  "emit e s = s\<lparr>trace := trace s @ [e]\<rparr>"


subsection \<open>Calls to the outside\<close>

text \<open>
  A database call is recorded, and either throws or applies its change to the table
  ArticleContents.
\<close>

definition dbCall ::
  "env \<Rightarrow> event \<Rightarrow> (ArticleContent list \<Rightarrow> ArticleContent list) \<Rightarrow> run_state \<Rightarrow> unit outcome" where
  "dbCall en e f s =
     (case dbFault en (length (trace s)) of
        Some x \<Rightarrow> Threw x (emit e s)
      | None \<Rightarrow> Returned () (emit e (s\<lparr>contentsTable := f (contentsTable s)\<rparr>)))"

text \<open>\<^verbatim>\<open>initModels(); await sequelize.authenticate();\<close>\<close>

definition authenticate :: "env \<Rightarrow> run_state \<Rightarrow> unit outcome" where
  "authenticate en s = dbCall en DbAuthenticate (\<lambda>t. t) s"

definition loadArticle :: "ArticleContent list \<Rightarrow> Article \<Rightarrow> LoadedArticle" where
  "loadArticle t a =
     \<lparr>ident = ident a, title = title a, url = url a,
      ArticleContents = filter (\<lambda>c. articleId c = ident a) t\<rparr>"

text \<open>
  \<^verbatim>\<open>Article.findAll({ include: [{ model: ArticleContent, required: false }] })\<close>:
  a left join, every article with its rows.
\<close>

definition findAll :: "env \<Rightarrow> run_state \<Rightarrow> LoadedArticle list outcome" where
  "findAll en s =
     (case dbFault en (length (trace s)) of
        Some x \<Rightarrow> Threw x (emit DbFindAll s)
      | None \<Rightarrow> Returned (map (loadArticle (contentsTable s)) (articlesTable s)) (emit DbFindAll s))"

definition applyValues :: "UpdateValues \<Rightarrow> ArticleContent \<Rightarrow> ArticleContent" where
  "applyValues v r =
     r\<lparr>body := (case setBody v of None \<Rightarrow> body r | Some c \<Rightarrow> c),
       scrapeStatusCheerio :=
         (case setStatusCheerio v of None \<Rightarrow> scrapeStatusCheerio r | Some b \<Rightarrow> Some b),
       scrapeStatusPuppeteer :=
         (case setStatusPuppeteer v of None \<Rightarrow> scrapeStatusPuppeteer r | Some b \<Rightarrow> Some b)\<rparr>"

text \<open>\<^verbatim>\<open>record.update(values)\<close>: the row with the primary key of the instance.\<close>

definition update :: "env \<Rightarrow> ArticleContent \<Rightarrow> UpdateValues \<Rightarrow> run_state \<Rightarrow> unit outcome" where
  "update en r v s =
     dbCall en (DbUpdate (rowId r) v)
       (map (\<lambda>row. if rowId row = rowId r then applyValues v row else row)) s"

text \<open>The key that AUTO_INCREMENT gives the next row.\<close>

definition freshRowId :: "ArticleContent list \<Rightarrow> nat" where
  "freshRowId t = Suc (fold max (map rowId t) 0)"

text \<open>\<^verbatim>\<open>ArticleContent.create({ articleId, content, scrapeStatusCheerio, scrapeStatusPuppeteer })\<close>\<close>

definition create ::
  "env \<Rightarrow> nat \<Rightarrow> string \<Rightarrow> bool option \<Rightarrow> bool option \<Rightarrow> run_state \<Rightarrow> unit outcome" where
  "create en aid c sc sp s =
     (let row = \<lparr>rowId = freshRowId (contentsTable s), articleId = aid, body = c,
                 scrapeStatusCheerio = sc, scrapeStatusPuppeteer = sp\<rparr>
      in dbCall en (DbCreate row) (\<lambda>t. t @ [row]) s)"

text \<open>\<^verbatim>\<open>ArticleContent.findOne({ where: { articleId: article.id } })\<close>\<close>

definition findOne :: "env \<Rightarrow> nat \<Rightarrow> run_state \<Rightarrow> ArticleContent option outcome" where
  "findOne en aid s =
     (case dbFault en (length (trace s)) of
        Some x \<Rightarrow> Threw x (emit (DbFindOne aid) s)
      | None \<Rightarrow> Returned (find (\<lambda>r. articleId r = aid) (contentsTable s)) (emit (DbFindOne aid) s))"

text \<open>\<^verbatim>\<open>sequelize.close()\<close>\<close>

definition close :: "env \<Rightarrow> run_state \<Rightarrow> unit outcome" where
  "close en s = dbCall en DbClose (\<lambda>t. t) s"

text \<open>
  The awaited calls of the two strategies: a strategy that threw would throw here, into the
  coordinator.
\<close>

definition attemptCheerio :: "env \<Rightarrow> string \<Rightarrow> run_state \<Rightarrow> ScrapeResult outcome" where
  "attemptCheerio en u s =
     (case scrapeArticleContentWithCheerio (cheerioFetch en (length (trace s))) u of
        Inl x \<Rightarrow> Threw x (emit (CheerioAttempt u) s)
      | Inr r \<Rightarrow> Returned r (emit (CheerioAttempt u) s))"

definition attemptPuppeteer :: "env \<Rightarrow> string \<Rightarrow> run_state \<Rightarrow> ScrapeResult outcome" where
  "attemptPuppeteer en u s =
     (case scrapeArticleContentWithPuppeteer (puppeteerRender en (length (trace s))) u of
        Inl x \<Rightarrow> Threw x (emit (PuppeteerAttempt u) s)
      | Inr r \<Rightarrow> Returned r (emit (PuppeteerAttempt u) s))"

text \<open>\<^verbatim>\<open>result.success && result.content\<close>: the empty string is falsy.\<close>

definition accepted :: "ScrapeResult \<Rightarrow> bool" where
  "accepted r = (success r \<and> (case content r of None \<Rightarrow> False | Some c \<Rightarrow> c \<noteq> []))"

definition count :: "(ScrapingStats \<Rightarrow> ScrapingStats) \<Rightarrow> run_state \<Rightarrow> unit outcome" where
  "count f s = Returned () (s\<lparr>stats := f (stats s)\<rparr>)"

subsection \<open>The selection (lines 165 to 193)\<close>

definition filterCallback :: "LoadedArticle \<Rightarrow> bool" where
  "filterCallback article =
     (case ArticleContents article of
        [] \<Rightarrow> True
      | c # _ \<Rightarrow>
          if scrapeStatusCheerio c = Some False \<and> scrapeStatusPuppeteer c = Some False then False
          else if scrapeStatusCheerio c = None then True
          else if scrapeStatusCheerio c = Some False \<and> scrapeStatusPuppeteer c = None then True
          else False)"

subsection \<open>One article (lines 205 to 341)\<close>

text \<open>
  Lines 280 to 311 and 318 to 335: what is done with the result of Puppeteer.
  \<open>existingContent\<close> is \<open>None\<close> for \<^verbatim>\<open>null\<close>; then the row is looked up, and
  nothing is updated if there is none.
\<close>

definition recordPuppeteer ::
  "env \<Rightarrow> LoadedArticle \<Rightarrow> ArticleContent option \<Rightarrow> ScrapeResult \<Rightarrow> run_state \<Rightarrow> unit outcome" where
  "recordPuppeteer en article existingContent puppeteerResult s =
     (let values =
            (if accepted puppeteerResult
             then \<lparr>setBody = content puppeteerResult, setStatusCheerio = None,
                   setStatusPuppeteer = Some True\<rparr>
             else \<lparr>setBody = None, setStatusCheerio = None, setStatusPuppeteer = Some False\<rparr>)
      in andThen (case existingContent of
                    Some r \<Rightarrow> Returned (Some r) s
                  | None \<Rightarrow> findOne en (ident article) s)
           (\<lambda>contentRecord s1.
              andThen (case contentRecord of
                         Some r \<Rightarrow> update en r values s1
                       | None \<Rightarrow> Returned () s1)
                (\<lambda>_. if accepted puppeteerResult
                      then count (\<lambda>st. st\<lparr>puppeteerSuccess := puppeteerSuccess st + 1\<rparr>)
                      else count (\<lambda>st. st\<lparr>puppeteerFailed := puppeteerFailed st + 1\<rparr>))))"

text \<open>
  Lines 233 to 312: the branch \<^verbatim>\<open>if (needsCheerio)\<close>. Where the result is accepted
  its \<^verbatim>\<open>content\<close> is there, so the \<open>None\<close> case under \<open>create\<close> is never taken.
\<close>

definition cheerioBranch ::
  "env \<Rightarrow> LoadedArticle \<Rightarrow> string \<Rightarrow> ArticleContent option \<Rightarrow> run_state \<Rightarrow> unit outcome" where
  "cheerioBranch en article u existingContent s =
     andThen (attemptCheerio en u s)
       (\<lambda>result s1.
          if accepted result
          then andThen (case existingContent of
                          Some r \<Rightarrow>
                            update en r \<lparr>setBody = content result, setStatusCheerio = Some True,
                                         setStatusPuppeteer = None\<rparr> s1
                        | None \<Rightarrow>
                            (case content result of
                               Some c \<Rightarrow> create en (ident article) c (Some True) None s1
                             | None \<Rightarrow> Returned () s1))
                 (\<lambda>_. count (\<lambda>st. st\<lparr>cheerioSuccess := cheerioSuccess st + 1\<rparr>))
          else andThen (case existingContent of
                          Some r \<Rightarrow>
                            update en r \<lparr>setBody = None, setStatusCheerio = Some False,
                                         setStatusPuppeteer = None\<rparr> s1
                        | None \<Rightarrow> create en (ident article) [] (Some False) None s1)
                 (\<lambda>_ s2.
                    andThen (count (\<lambda>st. st\<lparr>cheerioFailed := cheerioFailed st + 1\<rparr>) s2)
                      (\<lambda>_ s3.
                         andThen (attemptPuppeteer en u s3)
                           (\<lambda>puppeteerResult.
                              recordPuppeteer en article existingContent puppeteerResult))))"

text \<open>Lines 313 to 336: the branch \<^verbatim>\<open>else if (needsPuppeteer)\<close>.\<close>

definition puppeteerBranch ::
  "env \<Rightarrow> LoadedArticle \<Rightarrow> string \<Rightarrow> ArticleContent \<Rightarrow> run_state \<Rightarrow> unit outcome" where
  "puppeteerBranch en article u existingContent s =
     andThen (attemptPuppeteer en u s)
       (\<lambda>result. recordPuppeteer en article (Some existingContent) result)"

text \<open>
  Lines 219 to 230:
  \<^verbatim>\<open>
  const existingContent =
    article.ArticleContents && article.ArticleContents.length > 0
      ? article.ArticleContents[0] : null;
  const needsCheerio = !existingContent || existingContent.scrapeStatusCheerio === null;
  const needsPuppeteer = existingContent &&
    existingContent.scrapeStatusCheerio === false &&
    existingContent.scrapeStatusPuppeteer === null;
  \<close>
\<close>

definition existingContentOf :: "LoadedArticle \<Rightarrow> ArticleContent option" where
  "existingContentOf article = (case ArticleContents article of [] \<Rightarrow> None | c # _ \<Rightarrow> Some c)"

definition needsCheerio :: "ArticleContent option \<Rightarrow> bool" where
  "needsCheerio existingContent =
     (case existingContent of None \<Rightarrow> True | Some r \<Rightarrow> scrapeStatusCheerio r = None)"

definition needsPuppeteer :: "ArticleContent option \<Rightarrow> bool" where
  "needsPuppeteer existingContent =
     (case existingContent of
        None \<Rightarrow> False
      | Some r \<Rightarrow> scrapeStatusCheerio r = Some False \<and> scrapeStatusPuppeteer r = None)"

text \<open>
  The body of the \<^verbatim>\<open>for\<close> loop. \<open>lastOne\<close> is \<^verbatim>\<open>i = filteredArticles.length - 1\<close>.
  \<^verbatim>\<open>!article.url\<close> holds of \<^verbatim>\<open>null\<close> and of the empty string, and its
  \<^verbatim>\<open>continue\<close> passes over the delay as well. In the branch of \<open>needsPuppeteer\<close> the
  record is there, so its \<open>None\<close> case is never taken.
\<close>

definition loopBody :: "env \<Rightarrow> LoadedArticle \<Rightarrow> bool \<Rightarrow> run_state \<Rightarrow> unit outcome" where
  "loopBody en article lastOne s =
     (let skip = count (\<lambda>st. st\<lparr>skipped := skipped st + 1\<rparr>) s
      in case url article of
           None \<Rightarrow> skip
         | Some u \<Rightarrow>
             if u = [] then skip
             else
               let existingContent = existingContentOf article
               in andThen
                    (if needsCheerio existingContent
                     then cheerioBranch en article u existingContent s
                     else if needsPuppeteer existingContent
                     then (case existingContent of
                             Some r \<Rightarrow> puppeteerBranch en article u r s
                           | None \<Rightarrow> Returned () s)
                     else Returned () s)
                    (\<lambda>_ s1. Returned () (if lastOne then s1 else emit Delay s1)))"

fun forLoop :: "env \<Rightarrow> LoadedArticle list \<Rightarrow> run_state \<Rightarrow> unit outcome" where
  "forLoop en [] s = Returned () s"
| "forLoop en (article # rest) s =
     andThen (loopBody en article (rest = []) s) (\<lambda>_. forLoop en rest)"

subsection \<open>The run\<close>

definition noStats :: ScrapingStats where
  "noStats = \<lparr>total = 0, cheerioSuccess = 0, cheerioFailed = 0, puppeteerSuccess = 0,
              puppeteerFailed = 0, skipped = 0\<rparr>"

text \<open>The \<^verbatim>\<open>try\<close> block of \<^verbatim>\<open>main\<close> (lines 140 to 353).\<close>

definition mainTry :: "env \<Rightarrow> run_state \<Rightarrow> unit outcome" where
  "mainTry en s0 =
     andThen (authenticate en s0)
       (\<lambda>_ s1.
          andThen (findAll en s1)
            (\<lambda>articlesToScrape s2.
               let filteredArticles = filter filterCallback articlesToScrape;
                   s3 = s2\<lparr>stats := (stats s2)\<lparr>total := length filteredArticles\<rparr>\<rparr>
               in if total (stats s3) = 0 then Returned () s3
                  else andThen (forLoop en filteredArticles s3)
                         (\<lambda>_ s4.
                            let totalSuccess = cheerioSuccess (stats s4) + puppeteerSuccess (stats s4)
                            in Returned ()
                                 (emit (LogSuccessRate
                                          (toFixed1 (successRate totalSuccess (total (stats s4)))))
                                    s4))))"

text \<open>
  \<^verbatim>\<open>main()\<close> with its \<^verbatim>\<open>catch\<close> and \<^verbatim>\<open>finally\<close> blocks and the
  \<^verbatim>\<open>.then\<close>/\<^verbatim>\<open>.catch\<close> after the call (lines 354 to 373), run on a database.
  \<^verbatim>\<open>process.exit\<close> ends the process where it is called: after the one in the
  \<^verbatim>\<open>catch\<close> block nothing runs any more, the \<^verbatim>\<open>finally\<close> block included. A
  \<^verbatim>\<open>close\<close> that throws rejects the promise of \<^verbatim>\<open>main()\<close>.
\<close>

definition initialState :: "Article list \<Rightarrow> ArticleContent list \<Rightarrow> run_state" where
  "initialState articles contents =
     \<lparr>articlesTable = articles, contentsTable = contents, stats = noStats, trace = []\<rparr>"

definition main :: "env \<Rightarrow> Article list \<Rightarrow> ArticleContent list \<Rightarrow> run_state" where
  "main en articles contents =
     (case mainTry en (initialState articles contents) of
        Threw x s \<Rightarrow> emit (ProcessExit 1) s
      | Returned _ s \<Rightarrow>
          (case close en s of
             Threw x s1 \<Rightarrow> emit (ProcessExit 1) s1
           | Returned _ s1 \<Rightarrow> emit (ProcessExit 0) s1))"


section \<open>Notions for the statements\<close>

text \<open>The state an awaited call leaves, and whether it returned.\<close>

fun stateOf :: "'a outcome \<Rightarrow> run_state" where
  "stateOf (Returned v s) = s"
| "stateOf (Threw x s) = s"

fun returned :: "'a outcome \<Rightarrow> bool" where
  "returned (Returned v s) = True"
| "returned (Threw x s) = False"

text \<open>The events of a call that was started in the state \<open>s\<close>.\<close>

definition eventsOf :: "run_state \<Rightarrow> 'a outcome \<Rightarrow> event list" where
  "eventsOf s m = drop (length (trace s)) (trace (stateOf m))"

text \<open>The result a strategy returns, by what its library calls delivered.\<close>

definition resultFor :: "page_outcome \<Rightarrow> ScrapeResult" where
  "resultFor p = (case p of PageThrows e \<Rightarrow> catchBlock e | PageText c \<Rightarrow> thresholdCheck c)"

text \<open>Extraction attempts (the network calls) and writes to the database.\<close>

fun isAttempt :: "event \<Rightarrow> bool" where
  "isAttempt (CheerioAttempt u) = True"
| "isAttempt (PuppeteerAttempt u) = True"
| "isAttempt e = False"

fun isWrite :: "event \<Rightarrow> bool" where
  "isWrite (DbCreate r) = True"
| "isWrite (DbUpdate k v) = True"
| "isWrite e = False"

text \<open>
  An article is resolved when its record says that Cheerio succeeded, or that Cheerio failed
  and Puppeteer succeeded (Puppeteer is only tried after Cheerio has failed), or that both
  failed.
\<close>

definition resolvedRecord :: "ArticleContent \<Rightarrow> bool" where
  "resolvedRecord c =
     (scrapeStatusCheerio c = Some True \<or>
      (scrapeStatusCheerio c = Some False \<and>
         (scrapeStatusPuppeteer c = Some True \<or> scrapeStatusPuppeteer c = Some False)))"

definition fullyResolved :: "Article list \<Rightarrow> ArticleContent list \<Rightarrow> bool" where
  "fullyResolved articles contents =
     list_all (\<lambda>a. case existingContentOf (loadArticle contents a) of
                      None \<Rightarrow> False
                    | Some c \<Rightarrow> resolvedRecord c) articles"

section \<open>Sample data\<close>

definition sampleArticle :: "nat \<Rightarrow> ArticleContent list \<Rightarrow> LoadedArticle" where
  "sampleArticle n cs =
     \<lparr>ident = n, title = None, url = Some ''http://a'', ArticleContents = cs\<rparr>"

definition sampleRow :: "nat \<Rightarrow> bool option \<Rightarrow> bool option \<Rightarrow> ArticleContent" where
  "sampleRow n sc sp =
     \<lparr>rowId = n, articleId = n, body = [], scrapeStatusCheerio = sc, scrapeStatusPuppeteer = sp\<rparr>"

definition samplePopulation :: "LoadedArticle list" where
  "samplePopulation =
     [sampleArticle 1 [],
      sampleArticle 2 [sampleRow 2 None None],
      sampleArticle 3 [sampleRow 3 (Some False) None],
      sampleArticle 4 [sampleRow 4 (Some False) (Some False)],
      sampleArticle 5 [sampleRow 5 (Some True) None],
      sampleArticle 6 [sampleRow 6 (Some False) (Some True)]]"

definition longText :: string where
  "longText = replicate 200 CHR ''a''"

definition sampleArticles :: "Article list" where
  "sampleArticles =
     [\<lparr>ident = 1, title = None, url = Some ''http://a''\<rparr>,
      \<lparr>ident = 2, title = None, url = Some ''http://b''\<rparr>,
      \<lparr>ident = 3, title = Some ''no address'', url = None\<rparr>]"

text \<open>
  Cheerio gets a long text from the first address and a short one elsewhere, Puppeteer
  times out, the database works.
\<close>

definition sampleEnv :: env where
  "sampleEnv =
     \<lparr>cheerioFetch = (\<lambda>t u. if u = ''http://a'' then PageText longText else PageText ''short''),
      puppeteerRender = (\<lambda>t u. PageThrows (ErrorObject ''Navigation timeout'')),
      dbFault = (\<lambda>t. None)\<rparr>"

text \<open>The same, but Puppeteer gets a long text.\<close>

definition rescueEnv :: env where
  "rescueEnv = sampleEnv\<lparr>puppeteerRender := (\<lambda>t u. PageText longText)\<rparr>"

text \<open>The same, but the fourth call to the outside, a write to the database, throws.\<close>

definition faultyEnv :: env where
  "faultyEnv = sampleEnv\<lparr>dbFault := (\<lambda>t. if t = 3 then Some (ErrorObject ''SQLITE_BUSY'') else None)\<rparr>"


section \<open>Auxiliary facts\<close>

lemma cheerio_resultFor: "scrapeArticleContentWithCheerio f u = Inr (resultFor (f u))"
  by (simp add: scrapeArticleContentWithCheerio_def tryBlock_def resultFor_def
      split: page_outcome.splits)

lemma puppeteer_resultFor: "scrapeArticleContentWithPuppeteer f u = Inr (resultFor (f u))"
  by (simp add: scrapeArticleContentWithPuppeteer_def tryBlock_def resultFor_def
      split: page_outcome.splits)

lemma attemptCheerio_eq:
  "attemptCheerio en u s =
     Returned (resultFor (cheerioFetch en (length (trace s)) u)) (emit (CheerioAttempt u) s)"
  by (simp add: attemptCheerio_def cheerio_resultFor)

lemma attemptPuppeteer_eq:
  "attemptPuppeteer en u s =
     Returned (resultFor (puppeteerRender en (length (trace s)) u)) (emit (PuppeteerAttempt u) s)"
  by (simp add: attemptPuppeteer_def puppeteer_resultFor)

lemma accepted_resultFor:
  "accepted (resultFor p) \<longleftrightarrow> (\<exists>c. p = PageText c \<and> 200 \<le> length c)"
  by (cases p) (auto simp: accepted_def resultFor_def catchBlock_def thresholdCheck_def)

lemma content_resultFor:
  "200 \<le> length c \<Longrightarrow> content (resultFor (PageText c)) = Some c"
  by (auto simp: resultFor_def thresholdCheck_def)

lemma andThen_Returned:
  "andThen m k = Returned v s' \<longleftrightarrow> (\<exists>w s1. m = Returned w s1 \<and> k w s1 = Returned v s')"
  by (cases m) auto

lemma emit_simps [simp]:
  "stats (emit e s) = stats s" "trace (emit e s) = trace s @ [e]"
  "contentsTable (emit e s) = contentsTable s" "articlesTable (emit e s) = articlesTable s"
  by (simp_all add: emit_def)

lemma dbCall_Returned:
  "dbCall en e f s = Returned v s' \<longleftrightarrow>
     dbFault en (length (trace s)) = None \<and> s' = emit e (s\<lparr>contentsTable := f (contentsTable s)\<rparr>)"
  by (auto simp: dbCall_def split: option.splits)

lemma findOne_Returned:
  "findOne en aid s = Returned v s' \<longleftrightarrow>
     dbFault en (length (trace s)) = None \<and> v = find (\<lambda>r. articleId r = aid) (contentsTable s)
       \<and> s' = emit (DbFindOne aid) s"
  by (auto simp: findOne_def split: option.splits)

subsection \<open>The counters\<close>

lemma recordPuppeteer_stats:
  assumes "recordPuppeteer en a ex r s = Returned v s'"
  shows "stats s' =
     (if accepted r then (stats s)\<lparr>puppeteerSuccess := puppeteerSuccess (stats s) + 1\<rparr>
      else (stats s)\<lparr>puppeteerFailed := puppeteerFailed (stats s) + 1\<rparr>)"
  using assms
  by (auto simp: recordPuppeteer_def Let_def andThen_Returned count_def update_def
      dbCall_Returned findOne_Returned split: option.splits if_splits)

lemma cheerioBranch_stats:
  assumes "cheerioBranch en a u ex s = Returned v s'"
  shows "stats s' =
     (if accepted (resultFor (cheerioFetch en (length (trace s)) u))
      then (stats s)\<lparr>cheerioSuccess := cheerioSuccess (stats s) + 1\<rparr>
      else if accepted (resultFor (puppeteerRender en (length (trace s) + 2) u))
      then (stats s)\<lparr>cheerioFailed := cheerioFailed (stats s) + 1,
                      puppeteerSuccess := puppeteerSuccess (stats s) + 1\<rparr>
      else (stats s)\<lparr>cheerioFailed := cheerioFailed (stats s) + 1,
                      puppeteerFailed := puppeteerFailed (stats s) + 1\<rparr>)"
proof (cases "accepted (resultFor (cheerioFetch en (length (trace s)) u))")
  case True
  with assms show ?thesis
    by (auto simp: cheerioBranch_def attemptCheerio_eq andThen_Returned count_def update_def
        create_def Let_def dbCall_Returned split: option.splits)
next
  case False
  with assms obtain s2 where
    w: "(case ex of
           Some r \<Rightarrow> update en r \<lparr>setBody = None, setStatusCheerio = Some False,
                                  setStatusPuppeteer = None\<rparr> (emit (CheerioAttempt u) s)
         | None \<Rightarrow> create en (ident a) [] (Some False) None (emit (CheerioAttempt u) s))
        = Returned () s2"
    and r: "recordPuppeteer en a ex (resultFor (puppeteerRender en (length (trace s2)) u))
              (emit (PuppeteerAttempt u)
                (s2\<lparr>stats := (stats s2)\<lparr>cheerioFailed := cheerioFailed (stats s2) + 1\<rparr>\<rparr>))
            = Returned v s'"
    by (auto simp: cheerioBranch_def attemptCheerio_eq attemptPuppeteer_eq andThen_Returned
        count_def)
  from w have s2: "stats s2 = stats s" "length (trace s2) = length (trace s) + 2"
    by (auto simp: update_def create_def Let_def dbCall_Returned split: option.splits)
  from recordPuppeteer_stats [OF r] s2 False show ?thesis by simp
qed

lemma filterCallback_needs:
  "filterCallback a \<longleftrightarrow> needsCheerio (existingContentOf a) \<or> needsPuppeteer (existingContentOf a)"
  by (auto simp: filterCallback_def needsCheerio_def needsPuppeteer_def existingContentOf_def
      split: list.splits)

lemma loopBody_skip:
  "url a = None \<or> url a = Some [] \<Longrightarrow>
     loopBody en a lastOne s = Returned () (s\<lparr>stats := (stats s)\<lparr>skipped := skipped (stats s) + 1\<rparr>\<rparr>)"
  by (auto simp: loopBody_def count_def)

lemma loopBody_stats:
  assumes "loopBody en a lastOne s = Returned v s'" and "url a = Some u" and "u \<noteq> []"
    and "filterCallback a"
  shows "stats s' =
     (if needsCheerio (existingContentOf a)
      then (if accepted (resultFor (cheerioFetch en (length (trace s)) u))
            then (stats s)\<lparr>cheerioSuccess := cheerioSuccess (stats s) + 1\<rparr>
            else if accepted (resultFor (puppeteerRender en (length (trace s) + 2) u))
            then (stats s)\<lparr>cheerioFailed := cheerioFailed (stats s) + 1,
                            puppeteerSuccess := puppeteerSuccess (stats s) + 1\<rparr>
            else (stats s)\<lparr>cheerioFailed := cheerioFailed (stats s) + 1,
                            puppeteerFailed := puppeteerFailed (stats s) + 1\<rparr>)
      else (if accepted (resultFor (puppeteerRender en (length (trace s)) u))
            then (stats s)\<lparr>puppeteerSuccess := puppeteerSuccess (stats s) + 1\<rparr>
            else (stats s)\<lparr>puppeteerFailed := puppeteerFailed (stats s) + 1\<rparr>))"
proof (cases "needsCheerio (existingContentOf a)")
  case True
  with assms(1-3) obtain w s1 where
    c: "cheerioBranch en a u (existingContentOf a) s = Returned w s1"
    and s': "s' = (if lastOne then s1 else emit Delay s1)"
    by (auto simp: loopBody_def Let_def andThen_Returned)
  from cheerioBranch_stats [OF c] s' True show ?thesis by simp
next
  case False
  with assms(4) have np: "needsPuppeteer (existingContentOf a)"
    by (simp add: filterCallback_needs)
  then obtain r where r: "existingContentOf a = Some r"
    by (auto simp: needsPuppeteer_def split: option.splits)
  with assms(1-3) False np obtain w s1 where
    c: "recordPuppeteer en a (Some r) (resultFor (puppeteerRender en (length (trace s)) u))
          (emit (PuppeteerAttempt u) s) = Returned w s1"
    and s': "s' = (if lastOne then s1 else emit Delay s1)"
    by (auto simp: loopBody_def Let_def andThen_Returned puppeteerBranch_def attemptPuppeteer_eq)
  from recordPuppeteer_stats [OF c] s' False show ?thesis by simp
qed

lemma loopBody_counts:
  assumes "loopBody en a lastOne s = Returned v s'" and "filterCallback a"
  shows "total (stats s') = total (stats s) \<and>
         skipped (stats s') + cheerioSuccess (stats s') + puppeteerSuccess (stats s')
           + puppeteerFailed (stats s')
         = Suc (skipped (stats s) + cheerioSuccess (stats s) + puppeteerSuccess (stats s)
           + puppeteerFailed (stats s))"
proof (cases "url a = None \<or> url a = Some []")
  case True
  from loopBody_skip [OF True] assms(1) show ?thesis by auto
next
  case False
  then obtain u where u: "url a = Some u" "u \<noteq> []" by auto
  from loopBody_stats [OF assms(1) u assms(2)] show ?thesis by (simp split: if_splits)
qed

lemma forLoop_counts:
  assumes "forLoop en xs s = Returned v s'" and "\<forall>x\<in>set xs. filterCallback x"
  shows "total (stats s') = total (stats s) \<and>
         skipped (stats s') + cheerioSuccess (stats s') + puppeteerSuccess (stats s')
           + puppeteerFailed (stats s')
         = length xs + (skipped (stats s) + cheerioSuccess (stats s) + puppeteerSuccess (stats s)
           + puppeteerFailed (stats s))"
  using assms
proof (induction xs arbitrary: s)
  case Nil
  then show ?case by simp
next
  case (Cons x xs)
  from Cons.prems(1) obtain w s1 where
    b: "loopBody en x (xs = []) s = Returned w s1" and l: "forLoop en xs s1 = Returned v s'"
    by (auto simp: andThen_Returned)
  from Cons.prems(2) have fx: "filterCallback x" and fxs: "\<forall>y\<in>set xs. filterCallback y"
    by simp_all
  from loopBody_counts [OF b fx] Cons.IH [OF l fxs] show ?case by simp
qed

lemma mainTry_counts:
  assumes "mainTry en (initialState articles contents) = Returned v s"
  shows "total (stats s) = skipped (stats s) + cheerioSuccess (stats s)
           + puppeteerSuccess (stats s) + puppeteerFailed (stats s)"
proof -
  let ?s0 = "initialState articles contents"
  from assms obtain s1 where a: "authenticate en ?s0 = Returned () s1"
    and rest: "andThen (findAll en s1)
            (\<lambda>articlesToScrape s2.
               let filteredArticles = filter filterCallback articlesToScrape;
                   s3 = s2\<lparr>stats := (stats s2)\<lparr>total := length filteredArticles\<rparr>\<rparr>
               in if total (stats s3) = 0 then Returned () s3
                  else andThen (forLoop en filteredArticles s3)
                         (\<lambda>_ s4.
                            let totalSuccess = cheerioSuccess (stats s4) + puppeteerSuccess (stats s4)
                            in Returned ()
                                 (emit (LogSuccessRate
                                          (toFixed1 (successRate totalSuccess (total (stats s4)))))
                                    s4))) = Returned v s"
    by (auto simp: mainTry_def andThen_Returned)
  from a have st1: "stats s1 = noStats"
    by (auto simp: authenticate_def dbCall_Returned initialState_def)
  from rest obtain xs s2 where f: "findAll en s1 = Returned xs s2"
    and body: "(let filteredArticles = filter filterCallback xs;
                   s3 = s2\<lparr>stats := (stats s2)\<lparr>total := length filteredArticles\<rparr>\<rparr>
               in if total (stats s3) = 0 then Returned () s3
                  else andThen (forLoop en filteredArticles s3)
                         (\<lambda>_ s4.
                            let totalSuccess = cheerioSuccess (stats s4) + puppeteerSuccess (stats s4)
                            in Returned ()
                                 (emit (LogSuccessRate
                                          (toFixed1 (successRate totalSuccess (total (stats s4)))))
                                    s4))) = Returned v s"
    by (auto simp: andThen_Returned)
  from f st1 have st2: "stats s2 = noStats"
    by (auto simp: findAll_def split: option.splits)
  let ?fa = "filter filterCallback xs"
  let ?s3 = "s2\<lparr>stats := (stats s2)\<lparr>total := length ?fa\<rparr>\<rparr>"
  show ?thesis
  proof (cases "length ?fa = 0")
    case True
    with body st2 show ?thesis by (auto simp: Let_def noStats_def)
  next
    case False
    with body obtain w s4 where l: "forLoop en ?fa ?s3 = Returned w s4"
      and s: "s = emit (LogSuccessRate (toFixed1 (successRate
                  (cheerioSuccess (stats s4) + puppeteerSuccess (stats s4)) (total (stats s4))))) s4"
      by (auto simp: Let_def andThen_Returned)
    have "\<forall>x\<in>set ?fa. filterCallback x" by simp
    from forLoop_counts [OF l this] st2 s show ?thesis by (simp add: noStats_def)
  qed
qed


section \<open>The selection\<close>

text \<open>
  C1. An article of the population is selected exactly when it has no row in
  ArticleContents, or the Cheerio status of its first row is \<^verbatim>\<open>null\<close>, or that status is
  \<^verbatim>\<open>false\<close> and the Puppeteer status is \<^verbatim>\<open>null\<close>. An article whose Cheerio status
  is \<^verbatim>\<open>true\<close>, and one with both statuses \<^verbatim>\<open>false\<close>, is not selected.
\<close>

theorem selection_rule:
  "(a \<in> set (filter filterCallback population) \<longleftrightarrow>
      a \<in> set population \<and>
      (ArticleContents a = [] \<or>
       (\<exists>c rest. ArticleContents a = c # rest \<and>
          (scrapeStatusCheerio c = None \<or>
           (scrapeStatusCheerio c = Some False \<and> scrapeStatusPuppeteer c = None))))) \<and>
   (\<forall>c rest. ArticleContents a = c # rest \<and> scrapeStatusCheerio c = Some True
       \<longrightarrow> a \<notin> set (filter filterCallback population)) \<and>
   (\<forall>c rest. ArticleContents a = c # rest \<and> scrapeStatusCheerio c = Some False
         \<and> scrapeStatusPuppeteer c = Some False
       \<longrightarrow> a \<notin> set (filter filterCallback population))"
  by (cases "ArticleContents a") (auto simp: filterCallback_def)

theorem selection_rule_witness:
  "sampleArticle 1 [] \<in> set (filter filterCallback samplePopulation) \<and>
   sampleArticle 3 [sampleRow 3 (Some False) None]
     \<in> set (filter filterCallback samplePopulation) \<and>
   sampleArticle 4 [sampleRow 4 (Some False) (Some False)]
     \<notin> set (filter filterCallback samplePopulation) \<and>
   sampleArticle 5 [sampleRow 5 (Some True) None]
     \<notin> set (filter filterCallback samplePopulation)"
  using selection_rule [of "sampleArticle 1 []" samplePopulation]
    selection_rule [of "sampleArticle 3 [sampleRow 3 (Some False) None]" samplePopulation]
    selection_rule [of "sampleArticle 4 [sampleRow 4 (Some False) (Some False)]" samplePopulation]
    selection_rule [of "sampleArticle 5 [sampleRow 5 (Some True) None]" samplePopulation]
  by (simp add: sampleArticle_def sampleRow_def samplePopulation_def)

section \<open>The strategies\<close>

text \<open>
  C4. In both strategies, a text shorter than 200 is a failure whose error is
  "Content too short (n chars, minimum 200)", also though the page was fetched, and a
  text of length 200 or more is a success with that text.
\<close>

theorem length_threshold:
  "(fetch u = PageText c \<longrightarrow>
      scrapeArticleContentWithCheerio fetch u =
        Inr (if length c < 200
             then \<lparr>success = False, content = None,
                   error = Some (''Content too short ('' @ decimal (length c)
                                   @ '' chars, minimum 200)'')\<rparr>
             else \<lparr>success = True, content = Some c, error = None\<rparr>)) \<and>
   (render u = PageText c \<longrightarrow>
      scrapeArticleContentWithPuppeteer render u =
        Inr (if length c < 200
             then \<lparr>success = False, content = None,
                   error = Some (''Content too short ('' @ decimal (length c)
                                   @ '' chars, minimum 200)'')\<rparr>
             else \<lparr>success = True, content = Some c, error = None\<rparr>))"
  by (auto simp: scrapeArticleContentWithCheerio_def scrapeArticleContentWithPuppeteer_def
      tryBlock_def thresholdCheck_def)

theorem length_threshold_witness:
  "scrapeArticleContentWithCheerio (\<lambda>u. PageText (replicate 199 CHR ''a'')) ''http://a'' =
     Inr \<lparr>success = False, content = None,
          error = Some ''Content too short (199 chars, minimum 200)''\<rparr> \<and>
   scrapeArticleContentWithPuppeteer (\<lambda>u. PageText (replicate 199 CHR ''a'')) ''http://a'' =
     Inr \<lparr>success = False, content = None,
          error = Some ''Content too short (199 chars, minimum 200)''\<rparr> \<and>
   scrapeArticleContentWithCheerio (\<lambda>u. PageText (replicate 200 CHR ''a'')) ''http://a'' =
     Inr \<lparr>success = True, content = Some (replicate 200 CHR ''a''), error = None\<rparr> \<and>
   scrapeArticleContentWithPuppeteer (\<lambda>u. PageText (replicate 200 CHR ''a'')) ''http://a'' =
     Inr \<lparr>success = True, content = Some (replicate 200 CHR ''a''), error = None\<rparr>"
  using length_threshold [of "\<lambda>u. PageText (replicate 199 CHR ''a'')" "''http://a''"
      "replicate 199 CHR ''a''" "\<lambda>u. PageText (replicate 199 CHR ''a'')"]
    length_threshold [of "\<lambda>u. PageText (replicate 200 CHR ''a'')" "''http://a''"
      "replicate 200 CHR ''a''" "\<lambda>u. PageText (replicate 200 CHR ''a'')"]
  by (simp add: decimal.simps digitChar_def)

text \<open>
  C9. Whatever the library calls do, each strategy returns a result and throws nothing:
  a thrown value (network error, timeout, parse error) becomes a failure with its message
  as the error, a short text a failure with an error, and the awaited call in the
  coordinator always returns.
\<close>

theorem faults_are_results:
  "(\<exists>r. scrapeArticleContentWithCheerio fetch u = Inr r) \<and>
   (\<exists>r. scrapeArticleContentWithPuppeteer render u = Inr r) \<and>
   (fetch u = PageThrows x \<longrightarrow>
      scrapeArticleContentWithCheerio fetch u =
        Inr \<lparr>success = False, content = None, error = Some (errorMessage x)\<rparr>) \<and>
   (render u = PageThrows x \<longrightarrow>
      scrapeArticleContentWithPuppeteer render u =
        Inr \<lparr>success = False, content = None, error = Some (errorMessage x)\<rparr>) \<and>
   (fetch u = PageText c \<and> length c < 200 \<longrightarrow>
      (\<exists>m. scrapeArticleContentWithCheerio fetch u =
        Inr \<lparr>success = False, content = None, error = Some m\<rparr>)) \<and>
   (render u = PageText c \<and> length c < 200 \<longrightarrow>
      (\<exists>m. scrapeArticleContentWithPuppeteer render u =
        Inr \<lparr>success = False, content = None, error = Some m\<rparr>)) \<and>
   (\<exists>r. attemptCheerio en u s = Returned r (emit (CheerioAttempt u) s)) \<and>
   (\<exists>r. attemptPuppeteer en u s = Returned r (emit (PuppeteerAttempt u) s))"
  by (auto simp: scrapeArticleContentWithCheerio_def scrapeArticleContentWithPuppeteer_def
      attemptCheerio_def attemptPuppeteer_def tryBlock_def thresholdCheck_def catchBlock_def
      split: page_outcome.splits)

theorem faults_are_results_witness:
  "scrapeArticleContentWithCheerio
     (\<lambda>u. PageThrows (ErrorObject ''timeout of 15000ms exceeded'')) ''http://a'' =
     Inr \<lparr>success = False, content = None, error = Some ''timeout of 15000ms exceeded''\<rparr> \<and>
   scrapeArticleContentWithPuppeteer
     (\<lambda>u. PageThrows (OtherThrown ''net::ERR_FAILED'')) ''http://a'' =
     Inr \<lparr>success = False, content = None, error = Some ''net::ERR_FAILED''\<rparr> \<and>
   (\<exists>m. scrapeArticleContentWithCheerio (\<lambda>u. PageText ''too short'') ''http://a'' =
     Inr \<lparr>success = False, content = None, error = Some m\<rparr>) \<and>
   (\<exists>m. scrapeArticleContentWithPuppeteer (\<lambda>u. PageText ''too short'') ''http://a'' =
     Inr \<lparr>success = False, content = None, error = Some m\<rparr>)"
  using faults_are_results [of "\<lambda>u. PageThrows (ErrorObject ''timeout of 15000ms exceeded'')"
      "''http://a''" "\<lambda>u. PageThrows (ErrorObject ''timeout of 15000ms exceeded'')"
      "ErrorObject ''timeout of 15000ms exceeded''"]
    faults_are_results [of "\<lambda>u. PageText ''too short''" "''http://a''"
      "\<lambda>u. PageThrows (OtherThrown ''net::ERR_FAILED'')" "OtherThrown ''net::ERR_FAILED''"
      "''too short''"]
    faults_are_results [of "\<lambda>u. PageText ''too short''" "''http://a''"
      "\<lambda>u. PageText ''too short''" _ "''too short''"]
  by simp

subsection \<open>Evaluation of the sample runs\<close>

lemmas run_defs = main_def mainTry_def initialState_def noStats_def
  authenticate_def findAll_def dbCall_def emit_def loadArticle_def filterCallback_def
  loopBody_def existingContentOf_def needsCheerio_def needsPuppeteer_def
  cheerioBranch_def puppeteerBranch_def recordPuppeteer_def
  attemptCheerio_eq attemptPuppeteer_eq resultFor_def thresholdCheck_def catchBlock_def
  accepted_def count_def create_def update_def findOne_def freshRowId_def applyValues_def
  close_def Let_def

lemmas rate_defs = toFixed1_def toFixedTenths_def successRate_def jsTimes_def jsDivide_def
  ofCount_def nearestDouble_def scaleFor_def roundHalfEven_def bitLength.simps decimal.simps
  digitChar_def Let_def

lemma rate_one_of_three: "toFixed1 (successRate (Suc 0) (Suc (Suc (Suc 0)))) = ''33.3''"
proof -
  have "toFixed1 (successRate 1 3) = ''33.3''"
    by (simp add: rate_defs)
  then show ?thesis by (simp add: numeral_3_eq_3)
qed

lemma returned_stateOf: "returned m \<Longrightarrow> m = Returned () (stateOf m)"
  by (cases m) auto

lemma sample_mainTry:
  "mainTry sampleEnv (initialState sampleArticles []) =
     Returned ()
       \<lparr>articlesTable = sampleArticles,
        contentsTable =
          [\<lparr>rowId = 1, articleId = 1, body = longText, scrapeStatusCheerio = Some True,
            scrapeStatusPuppeteer = None\<rparr>,
           \<lparr>rowId = 2, articleId = 2, body = [], scrapeStatusCheerio = Some False,
            scrapeStatusPuppeteer = Some False\<rparr>],
        stats = \<lparr>total = 3, cheerioSuccess = 1, cheerioFailed = 1, puppeteerSuccess = 0,
                 puppeteerFailed = 1, skipped = 1\<rparr>,
        trace =
          [DbAuthenticate, DbFindAll, CheerioAttempt ''http://a'',
           DbCreate \<lparr>rowId = 1, articleId = 1, body = longText, scrapeStatusCheerio = Some True,
                     scrapeStatusPuppeteer = None\<rparr>,
           Delay, CheerioAttempt ''http://b'',
           DbCreate \<lparr>rowId = 2, articleId = 2, body = [], scrapeStatusCheerio = Some False,
                     scrapeStatusPuppeteer = None\<rparr>,
           PuppeteerAttempt ''http://b'', DbFindOne 2,
           DbUpdate 2 \<lparr>setBody = None, setStatusCheerio = None, setStatusPuppeteer = Some False\<rparr>,
           Delay, LogSuccessRate ''33.3'']\<rparr>"
  by (simp add: run_defs sampleArticles_def sampleEnv_def longText_def rate_one_of_three)

section \<open>The counters of a pass\<close>

text \<open>
  C10. When the pass is completed, the number of selected articles is the sum of the
  skipped ones, the Cheerio successes, the Puppeteer successes and the Puppeteer
  failures. One selected article adds one to exactly one of the four: an article without
  URL to \<open>skipped\<close> only, a Cheerio success to \<open>cheerioSuccess\<close> only, any other
  to \<open>puppeteerSuccess\<close> or \<open>puppeteerFailed\<close>, and where the cascade ran
  \<open>cheerioFailed\<close> is counted as well.
\<close>

theorem terminal_outcome_counters:
  "(mainTry en (initialState articles contents) = Returned v s \<longrightarrow>
      total (stats s) =
        skipped (stats s) + cheerioSuccess (stats s) + puppeteerSuccess (stats s)
          + puppeteerFailed (stats s)) \<and>
   (url a = None \<or> url a = Some [] \<longrightarrow>
      loopBody en a lastOne s0 =
        Returned () (s0\<lparr>stats := (stats s0)\<lparr>skipped := skipped (stats s0) + 1\<rparr>\<rparr>)) \<and>
   (loopBody en a lastOne s0 = Returned w s1 \<and> url a = Some u \<and> u \<noteq> [] \<and> filterCallback a \<longrightarrow>
      stats s1 =
        (if needsCheerio (existingContentOf a)
         then (if accepted (resultFor (cheerioFetch en (length (trace s0)) u))
               then (stats s0)\<lparr>cheerioSuccess := cheerioSuccess (stats s0) + 1\<rparr>
               else if accepted (resultFor (puppeteerRender en (length (trace s0) + 2) u))
               then (stats s0)\<lparr>cheerioFailed := cheerioFailed (stats s0) + 1,
                                puppeteerSuccess := puppeteerSuccess (stats s0) + 1\<rparr>
               else (stats s0)\<lparr>cheerioFailed := cheerioFailed (stats s0) + 1,
                                puppeteerFailed := puppeteerFailed (stats s0) + 1\<rparr>)
         else (if accepted (resultFor (puppeteerRender en (length (trace s0)) u))
               then (stats s0)\<lparr>puppeteerSuccess := puppeteerSuccess (stats s0) + 1\<rparr>
               else (stats s0)\<lparr>puppeteerFailed := puppeteerFailed (stats s0) + 1\<rparr>)))"
  using mainTry_counts [of en articles contents v s] loopBody_skip [of a en lastOne s0]
    loopBody_stats [of en a lastOne s0 w s1 u]
  by blast

theorem terminal_outcome_counters_witness:
  "returned (mainTry sampleEnv (initialState sampleArticles [])) \<and>
   stats (stateOf (mainTry sampleEnv (initialState sampleArticles []))) =
     \<lparr>total = 3, cheerioSuccess = 1, cheerioFailed = 1, puppeteerSuccess = 0,
      puppeteerFailed = 1, skipped = 1\<rparr> \<and>
   total (stats (stateOf (mainTry sampleEnv (initialState sampleArticles [])))) =
     skipped (stats (stateOf (mainTry sampleEnv (initialState sampleArticles []))))
     + cheerioSuccess (stats (stateOf (mainTry sampleEnv (initialState sampleArticles []))))
     + puppeteerSuccess (stats (stateOf (mainTry sampleEnv (initialState sampleArticles []))))
     + puppeteerFailed (stats (stateOf (mainTry sampleEnv (initialState sampleArticles [])))) \<and>
   stats (stateOf (loopBody sampleEnv (sampleArticle 1 []) True (initialState [] []))) =
     noStats\<lparr>cheerioSuccess := 1\<rparr> \<and>
   stats (stateOf (loopBody sampleEnv (sampleArticle 3 [sampleRow 3 (Some False) None]) True
                     (initialState [] [sampleRow 3 (Some False) None]))) =
     noStats\<lparr>puppeteerFailed := 1\<rparr> \<and>
   stats (stateOf (loopBody sampleEnv (loadArticle [] (sampleArticles ! 2)) True
                     (initialState [] []))) =
     noStats\<lparr>skipped := 1\<rparr>"
proof -
  let ?m = "mainTry sampleEnv (initialState sampleArticles [])"
  let ?b1 = "loopBody sampleEnv (sampleArticle 1 []) True (initialState [] [])"
  let ?b3 = "loopBody sampleEnv (sampleArticle 3 [sampleRow 3 (Some False) None]) True
               (initialState [] [sampleRow 3 (Some False) None])"
  let ?b0 = "loopBody sampleEnv (loadArticle [] (sampleArticles ! 2)) True (initialState [] [])"
  have r: "returned ?m" and st: "stats (stateOf ?m) =
     \<lparr>total = 3, cheerioSuccess = 1, cheerioFailed = 1, puppeteerSuccess = 0,
      puppeteerFailed = 1, skipped = 1\<rparr>"
    by (simp_all add: sample_mainTry)
  have m: "?m = Returned () (stateOf ?m)"
    using r by (rule returned_stateOf)
  have r1: "returned ?b1" and r3: "returned ?b3"
    by (simp_all add: run_defs sampleEnv_def sampleArticle_def sampleRow_def longText_def)
  have b1: "?b1 = Returned () (stateOf ?b1)" and b3: "?b3 = Returned () (stateOf ?b3)"
    using r1 r3 by (simp_all add: returned_stateOf)
  have f1: "filterCallback (sampleArticle 1 [])"
    and f3: "filterCallback (sampleArticle 3 [sampleRow 3 (Some False) None])"
    by (simp_all add: filterCallback_def sampleArticle_def sampleRow_def)
  have u: "url (sampleArticle 1 []) = Some ''http://a''"
    "url (sampleArticle 3 [sampleRow 3 (Some False) None]) = Some ''http://a''"
    "url (loadArticle [] (sampleArticles ! 2)) = None"
    by (simp_all add: sampleArticle_def sampleArticles_def loadArticle_def)
  from terminal_outcome_counters [of sampleEnv sampleArticles "[]" "()" "stateOf ?m"
      "sampleArticle 1 []" True "initialState [] []" "()" "stateOf ?b1" "''http://a''"]
    m b1 f1 u(1)
  have c1: "total (stats (stateOf ?m)) =
      skipped (stats (stateOf ?m)) + cheerioSuccess (stats (stateOf ?m))
      + puppeteerSuccess (stats (stateOf ?m)) + puppeteerFailed (stats (stateOf ?m))"
    and c2: "stats (stateOf ?b1) = noStats\<lparr>cheerioSuccess := 1\<rparr>"
    by (simp_all add: needsCheerio_def existingContentOf_def sampleArticle_def initialState_def
        sampleEnv_def accepted_resultFor longText_def noStats_def)
  from terminal_outcome_counters [of sampleEnv sampleArticles "[]" "()" "stateOf ?m"
      "sampleArticle 3 [sampleRow 3 (Some False) None]" True
      "initialState [] [sampleRow 3 (Some False) None]" "()" "stateOf ?b3" "''http://a''"]
    b3 f3 u(2)
  have c3: "stats (stateOf ?b3) = noStats\<lparr>puppeteerFailed := 1\<rparr>"
    by (simp add: needsCheerio_def existingContentOf_def sampleArticle_def sampleRow_def
        initialState_def sampleEnv_def accepted_resultFor noStats_def)
  from terminal_outcome_counters [of sampleEnv sampleArticles "[]" "()" "stateOf ?m"
      "loadArticle [] (sampleArticles ! 2)" True "initialState [] []"] u(3)
  have c0: "stats (stateOf ?b0) = noStats\<lparr>skipped := 1\<rparr>"
    by (simp add: initialState_def noStats_def)
  from r st c1 c2 c3 c0 show ?thesis by simp
qed

section \<open>Repeated runs\<close>

lemma resolved_not_selected:
  assumes "fullyResolved articles contents"
  shows "filter filterCallback (map (loadArticle contents) articles) = []"
proof -
  have "\<not> filterCallback (loadArticle contents a)" if "a \<in> set articles" for a
    using assms that
    by (auto simp: fullyResolved_def list_all_iff filterCallback_def existingContentOf_def
        resolvedRecord_def split: list.splits)
  then show ?thesis by (auto simp: filter_empty_conv)
qed

lemma idle_run:
  assumes "fullyResolved articles contents"
  shows "filter isAttempt (trace (main en articles contents)) = [] \<and>
         filter isWrite (trace (main en articles contents)) = [] \<and>
         contentsTable (main en articles contents) = contents"
  using resolved_not_selected [OF assms]
  by (auto simp: main_def mainTry_def authenticate_def findAll_def close_def dbCall_def
      initialState_def Let_def split: option.splits)

text \<open>
  C3. When after a first run every article is resolved (Cheerio succeeded, or Puppeteer
  succeeded, or both failed), a second run over the articles and the table as the first
  run left them makes no extraction attempt and no write, whatever the outside does.
\<close>

theorem second_run_is_idle:
  assumes "fullyResolved articles (contentsTable (main en1 articles contents))"
  shows "filter isAttempt
           (trace (main en2 articles (contentsTable (main en1 articles contents)))) = [] \<and>
         filter isWrite
           (trace (main en2 articles (contentsTable (main en1 articles contents)))) = [] \<and>
         contentsTable (main en2 articles (contentsTable (main en1 articles contents))) =
           contentsTable (main en1 articles contents)"
  using assms by (rule idle_run)

lemma first_run_table:
  "contentsTable (main sampleEnv (take 2 sampleArticles) []) =
     [\<lparr>rowId = 1, articleId = 1, body = longText, scrapeStatusCheerio = Some True,
       scrapeStatusPuppeteer = None\<rparr>,
      \<lparr>rowId = 2, articleId = 2, body = [], scrapeStatusCheerio = Some False,
       scrapeStatusPuppeteer = Some False\<rparr>]"
  by (simp add: run_defs sampleArticles_def sampleEnv_def longText_def)

theorem second_run_is_idle_witness:
  "fullyResolved (take 2 sampleArticles)
     (contentsTable (main sampleEnv (take 2 sampleArticles) [])) \<and>
   filter isAttempt
     (trace (main sampleEnv (take 2 sampleArticles)
               (contentsTable (main sampleEnv (take 2 sampleArticles) [])))) = [] \<and>
   filter isWrite
     (trace (main sampleEnv (take 2 sampleArticles)
               (contentsTable (main sampleEnv (take 2 sampleArticles) [])))) = [] \<and>
   filter isAttempt (trace (main sampleEnv (take 2 sampleArticles) [])) =
     [CheerioAttempt ''http://a'', CheerioAttempt ''http://b'', PuppeteerAttempt ''http://b'']"
proof -
  have f: "fullyResolved (take 2 sampleArticles)
      (contentsTable (main sampleEnv (take 2 sampleArticles) []))"
    by (simp add: first_run_table)
      (simp add: fullyResolved_def sampleArticles_def loadArticle_def existingContentOf_def
        resolvedRecord_def)
  have t: "filter isAttempt (trace (main sampleEnv (take 2 sampleArticles) [])) =
     [CheerioAttempt ''http://a'', CheerioAttempt ''http://b'', PuppeteerAttempt ''http://b'']"
    by (simp add: run_defs sampleArticles_def sampleEnv_def longText_def)
  from second_run_is_idle [OF f, of sampleEnv] f t show ?thesis by simp
qed

section \<open>The end of a run\<close>

text \<open>
  C5. A run in which a write to the database throws: the \<^verbatim>\<open>catch\<close> block of
  \<^verbatim>\<open>main\<close> ends the process with code 1, and the connection is never closed.
\<close>

theorem fatal_exit_without_close:
  "trace (main faultyEnv sampleArticles []) =
     [DbAuthenticate, DbFindAll, CheerioAttempt ''http://a'',
      DbCreate \<lparr>rowId = 1, articleId = 1, body = longText, scrapeStatusCheerio = Some True,
                scrapeStatusPuppeteer = None\<rparr>,
      ProcessExit 1] \<and>
   DbClose \<notin> set (trace (main faultyEnv sampleArticles []))"
  by (simp add: run_defs sampleArticles_def sampleEnv_def faultyEnv_def longText_def)


subsection \<open>The events of a call\<close>

lemma stateOf_andThen:
  "stateOf (andThen m k) = (case m of Returned v s1 \<Rightarrow> stateOf (k v s1) | Threw x s1 \<Rightarrow> s1)"
  by (cases m) auto

lemma extends_andThen:
  assumes "\<exists>tl. trace (stateOf m) = trace s @ tl"
    and "\<And>v s1. m = Returned v s1 \<Longrightarrow> \<exists>tl. trace (stateOf (k v s1)) = trace s1 @ tl"
  shows "\<exists>tl. trace (stateOf (andThen m k)) = trace s @ tl"
proof (cases m)
  case (Returned v s1)
  with assms(1) obtain tl where a: "trace s1 = trace s @ tl" by auto
  from assms(2) [OF Returned] obtain tl' where "trace (stateOf (k v s1)) = trace s1 @ tl'" by auto
  with a Returned show ?thesis by simp
next
  case (Threw x s1)
  with assms(1) show ?thesis by simp
qed

lemma extends_dbCall: "\<exists>tl. trace (stateOf (dbCall en e f s)) = trace s @ tl"
  by (simp add: dbCall_def split: option.splits)

lemma extends_update: "\<exists>tl. trace (stateOf (update en r v s)) = trace s @ tl"
  by (simp add: update_def extends_dbCall)

lemma extends_create: "\<exists>tl. trace (stateOf (create en i c sc sp s)) = trace s @ tl"
  by (simp add: create_def Let_def extends_dbCall)

lemma extends_findOne: "\<exists>tl. trace (stateOf (findOne en i s)) = trace s @ tl"
  by (simp add: findOne_def split: option.splits)

lemma extends_count: "\<exists>tl. trace (stateOf (count f s)) = trace s @ tl"
  by (simp add: count_def)

lemma extends_recordPuppeteer:
  "\<exists>tl. trace (stateOf (recordPuppeteer en a ex r s)) = trace s @ tl"
  unfolding recordPuppeteer_def Let_def
  by (intro extends_andThen)
    (auto simp: extends_update extends_findOne extends_count split: option.splits)

lemma extends_cheerioBranch:
  "\<exists>tl. trace (stateOf (cheerioBranch en a u ex s)) = trace s @ tl"
  unfolding cheerioBranch_def
  apply (rule extends_andThen)
   apply (simp add: attemptCheerio_eq)
  apply (split if_split)
  apply (intro conjI impI extends_andThen)
        apply (auto simp: extends_update extends_create extends_count extends_recordPuppeteer
      attemptPuppeteer_eq split: option.splits)
  done

lemma extends_puppeteerBranch:
  "\<exists>tl. trace (stateOf (puppeteerBranch en a u r s)) = trace s @ tl"
  unfolding puppeteerBranch_def
  by (rule extends_andThen) (simp_all add: attemptPuppeteer_eq extends_recordPuppeteer)

lemma extends_loopBody:
  "\<exists>tl. trace (stateOf (loopBody en a lastOne s)) = trace s @ tl"
proof (cases "url a = None \<or> url a = Some []")
  case True
  from loopBody_skip [OF this] show ?thesis by simp
next
  case False
  then obtain u where u: "url a = Some u" "u \<noteq> []" by auto
  have "\<exists>tl. trace (stateOf (andThen
          (if needsCheerio (existingContentOf a)
           then cheerioBranch en a u (existingContentOf a) s
           else if needsPuppeteer (existingContentOf a)
           then (case existingContentOf a of
                   Some r \<Rightarrow> puppeteerBranch en a u r s
                 | None \<Rightarrow> Returned () s)
           else Returned () s)
          (\<lambda>_ s1. Returned () (if lastOne then s1 else emit Delay s1)))) = trace s @ tl"
    by (rule extends_andThen)
      (auto simp: extends_cheerioBranch extends_puppeteerBranch split: option.splits)
  with u show ?thesis by (simp add: loopBody_def Let_def)
qed

lemma extends_forLoop: "\<exists>tl. trace (stateOf (forLoop en xs s)) = trace s @ tl"
proof (induction xs arbitrary: s)
  case Nil
  show ?case by simp
next
  case (Cons x xs)
  show ?case
    unfolding forLoop.simps
    by (rule extends_andThen) (auto simp: extends_loopBody Cons.IH)
qed


section \<open>One article\<close>

lemma recordPuppeteer_existing:
  "recordPuppeteer en a (Some r) res s =
     (let values =
            (if accepted res
             then \<lparr>setBody = content res, setStatusCheerio = None, setStatusPuppeteer = Some True\<rparr>
             else \<lparr>setBody = None, setStatusCheerio = None, setStatusPuppeteer = Some False\<rparr>)
      in case dbFault en (length (trace s)) of
           Some x \<Rightarrow> Threw x (emit (DbUpdate (rowId r) values) s)
         | None \<Rightarrow>
             Returned ()
               (s\<lparr>contentsTable :=
                     map (\<lambda>row. if rowId row = rowId r then applyValues values row else row)
                       (contentsTable s),
                   trace := trace s @ [DbUpdate (rowId r) values],
                   stats :=
                     (if accepted res
                      then (stats s)\<lparr>puppeteerSuccess := puppeteerSuccess (stats s) + 1\<rparr>
                      else (stats s)\<lparr>puppeteerFailed := puppeteerFailed (stats s) + 1\<rparr>)\<rparr>))"
  by (simp add: recordPuppeteer_def update_def dbCall_def count_def emit_def Let_def
      split: option.splits)

lemma robust_iteration:
  assumes "existingContentOf a = Some r"
    and "scrapeStatusCheerio r = Some False" and "scrapeStatusPuppeteer r = None"
  shows "(\<forall>v. CheerioAttempt v \<notin> set (eventsOf s (loopBody en a lastOne s))) \<and>
    (url a = Some u \<and> u \<noteq> [] \<and> dbFault en (Suc (length (trace s))) = None \<longrightarrow>
       (puppeteerRender en (length (trace s)) u = PageText c \<and> 200 \<le> length c \<longrightarrow>
          eventsOf s (loopBody en a lastOne s) =
            [PuppeteerAttempt u,
             DbUpdate (rowId r) \<lparr>setBody = Some c, setStatusCheerio = None,
                                 setStatusPuppeteer = Some True\<rparr>]
            @ (if lastOne then [] else [Delay]) \<and>
          contentsTable (stateOf (loopBody en a lastOne s)) =
            map (\<lambda>row. if rowId row = rowId r
                       then row\<lparr>body := c, scrapeStatusPuppeteer := Some True\<rparr> else row)
              (contentsTable s) \<and>
          map scrapeStatusCheerio (contentsTable (stateOf (loopBody en a lastOne s))) =
            map scrapeStatusCheerio (contentsTable s)) \<and>
       ((\<forall>d. puppeteerRender en (length (trace s)) u = PageText d \<longrightarrow> length d < 200) \<longrightarrow>
          eventsOf s (loopBody en a lastOne s) =
            [PuppeteerAttempt u,
             DbUpdate (rowId r) \<lparr>setBody = None, setStatusCheerio = None,
                                 setStatusPuppeteer = Some False\<rparr>]
            @ (if lastOne then [] else [Delay]) \<and>
          contentsTable (stateOf (loopBody en a lastOne s)) =
            map (\<lambda>row. if rowId row = rowId r
                       then row\<lparr>scrapeStatusPuppeteer := Some False\<rparr> else row)
              (contentsTable s) \<and>
          map scrapeStatusCheerio (contentsTable (stateOf (loopBody en a lastOne s))) =
            map scrapeStatusCheerio (contentsTable s) \<and>
          map body (contentsTable (stateOf (loopBody en a lastOne s))) =
            map body (contentsTable s)))"
proof (cases "url a = None \<or> url a = Some []")
  case True
  from loopBody_skip [OF this] True show ?thesis
    by (auto simp: eventsOf_def)
next
  case False
  then obtain w where w: "url a = Some w" "w \<noteq> []" by auto
  let ?p = "puppeteerRender en (length (trace s)) w"
  have body: "loopBody en a lastOne s =
    andThen (recordPuppeteer en a (Some r) (resultFor ?p) (emit (PuppeteerAttempt w) s))
      (\<lambda>_ s1. Returned () (if lastOne then s1 else emit Delay s1))"
    using assms w
    by (simp add: loopBody_def Let_def needsCheerio_def needsPuppeteer_def puppeteerBranch_def
        attemptPuppeteer_eq)
  have no_cheerio: "\<forall>v. CheerioAttempt v \<notin> set (eventsOf s (loopBody en a lastOne s))"
    by (auto simp: body recordPuppeteer_existing eventsOf_def Let_def emit_def
        split: option.splits)
  have success: "eventsOf s (loopBody en a lastOne s) =
            [PuppeteerAttempt w,
             DbUpdate (rowId r) \<lparr>setBody = Some c, setStatusCheerio = None,
                                 setStatusPuppeteer = Some True\<rparr>]
            @ (if lastOne then [] else [Delay]) \<and>
          contentsTable (stateOf (loopBody en a lastOne s)) =
            map (\<lambda>row. if rowId row = rowId r
                       then row\<lparr>body := c, scrapeStatusPuppeteer := Some True\<rparr> else row)
              (contentsTable s) \<and>
          map scrapeStatusCheerio (contentsTable (stateOf (loopBody en a lastOne s))) =
            map scrapeStatusCheerio (contentsTable s)"
    if "dbFault en (Suc (length (trace s))) = None" "?p = PageText c" "200 \<le> length c"
  proof -
    from that have "accepted (resultFor ?p)" "content (resultFor ?p) = Some c"
      by (simp_all add: accepted_resultFor content_resultFor)
    with that(1) show ?thesis
      by (simp add: body recordPuppeteer_existing eventsOf_def Let_def emit_def applyValues_def
          comp_def)
  qed
  have failure: "eventsOf s (loopBody en a lastOne s) =
            [PuppeteerAttempt w,
             DbUpdate (rowId r) \<lparr>setBody = None, setStatusCheerio = None,
                                 setStatusPuppeteer = Some False\<rparr>]
            @ (if lastOne then [] else [Delay]) \<and>
          contentsTable (stateOf (loopBody en a lastOne s)) =
            map (\<lambda>row. if rowId row = rowId r
                       then row\<lparr>scrapeStatusPuppeteer := Some False\<rparr> else row)
              (contentsTable s) \<and>
          map scrapeStatusCheerio (contentsTable (stateOf (loopBody en a lastOne s))) =
            map scrapeStatusCheerio (contentsTable s) \<and>
          map body (contentsTable (stateOf (loopBody en a lastOne s))) =
            map body (contentsTable s)"
    if "dbFault en (Suc (length (trace s))) = None"
      "\<forall>d. ?p = PageText d \<longrightarrow> length d < 200"
  proof -
    from that(2) have "\<not> accepted (resultFor ?p)"
      by (auto simp: accepted_resultFor)
    with that(1) show ?thesis
      by (simp add: body recordPuppeteer_existing eventsOf_def Let_def emit_def applyValues_def
          comp_def)
  qed
  from no_cheerio success failure w show ?thesis by auto
qed

lemma robust_iteration_state:
  assumes "existingContentOf a = Some r"
    and "scrapeStatusCheerio r = Some False" and "scrapeStatusPuppeteer r = None"
    and "url a = Some u" and "u \<noteq> []" and "dbFault en (Suc (length (trace s))) = None"
  shows "loopBody en a lastOne s =
     (let res = resultFor (puppeteerRender en (length (trace s)) u);
          values =
            (if accepted res
             then \<lparr>setBody = content res, setStatusCheerio = None, setStatusPuppeteer = Some True\<rparr>
             else \<lparr>setBody = None, setStatusCheerio = None, setStatusPuppeteer = Some False\<rparr>)
      in Returned ()
           (s\<lparr>contentsTable :=
                 map (\<lambda>row. if rowId row = rowId r then applyValues values row else row)
                   (contentsTable s),
               stats :=
                 (if accepted res
                  then (stats s)\<lparr>puppeteerSuccess := puppeteerSuccess (stats s) + 1\<rparr>
                  else (stats s)\<lparr>puppeteerFailed := puppeteerFailed (stats s) + 1\<rparr>),
               trace := trace s @ [PuppeteerAttempt u, DbUpdate (rowId r) values]
                          @ (if lastOne then [] else [Delay])\<rparr>))"
  using assms
  by (simp add: loopBody_def Let_def needsCheerio_def needsPuppeteer_def puppeteerBranch_def
      attemptPuppeteer_eq recordPuppeteer_existing emit_def)

lemma applyValues_success:
  "applyValues \<lparr>setBody = Some c, setStatusCheerio = None, setStatusPuppeteer = Some True\<rparr> =
     (\<lambda>row. row\<lparr>body := c, scrapeStatusPuppeteer := Some True\<rparr>)"
  by (rule ext) (simp add: applyValues_def)

lemma applyValues_failure:
  "applyValues \<lparr>setBody = None, setStatusCheerio = None, setStatusPuppeteer = Some False\<rparr> =
     (\<lambda>row. row\<lparr>scrapeStatusPuppeteer := Some False\<rparr>)"
  by (rule ext) (simp add: applyValues_def)

lemma events_after_continue:
  assumes "forLoop en (a # rest) s = forLoop en rest s1" and "trace s1 = trace s @ ev @ later"
  shows "take (length ev) (eventsOf s (forLoop en (a # rest) s)) = ev"
proof -
  from extends_forLoop [of en rest s1] obtain tl' where
    "trace (stateOf (forLoop en rest s1)) = trace s1 @ tl'" by blast
  with assms show ?thesis by (simp add: eventsOf_def)
qed

text \<open>
  C7. For an article whose record says that Cheerio failed and Puppeteer was not attempted,
  the iteration of the pass makes no Cheerio attempt. Without a URL the pass goes on to the
  next article with only \<open>skipped\<close> counted. With a URL and an update that does not
  throw, the pass makes the Puppeteer attempt and one update of that record as its next two
  events and goes on from the state so changed: on success the text and the Puppeteer
  status of the record are set and the Cheerio status of every row stays as it was, on
  failure only the Puppeteer status is set and the texts and Cheerio statuses stay as they
  were.
\<close>

theorem robust_only_branch:
  assumes "existingContentOf a = Some r"
    and "scrapeStatusCheerio r = Some False" and "scrapeStatusPuppeteer r = None"
  shows "(\<forall>v. CheerioAttempt v \<notin> set (eventsOf s (loopBody en a (rest = []) s))) \<and>
    (url a = None \<or> url a = Some [] \<longrightarrow>
       forLoop en (a # rest) s =
         forLoop en rest (s\<lparr>stats := (stats s)\<lparr>skipped := skipped (stats s) + 1\<rparr>\<rparr>)) \<and>
    (url a = Some u \<and> u \<noteq> [] \<and> dbFault en (Suc (length (trace s))) = None \<longrightarrow>
       (puppeteerRender en (length (trace s)) u = PageText c \<and> 200 \<le> length c \<longrightarrow>
          forLoop en (a # rest) s =
            forLoop en rest
              (s\<lparr>contentsTable :=
                    map (\<lambda>row. if rowId row = rowId r
                               then row\<lparr>body := c, scrapeStatusPuppeteer := Some True\<rparr> else row)
                      (contentsTable s),
                  stats := (stats s)\<lparr>puppeteerSuccess := puppeteerSuccess (stats s) + 1\<rparr>,
                  trace := trace s @
                    [PuppeteerAttempt u,
                     DbUpdate (rowId r) \<lparr>setBody = Some c, setStatusCheerio = None,
                                         setStatusPuppeteer = Some True\<rparr>]
                    @ (if rest = [] then [] else [Delay])\<rparr>) \<and>
          take 2 (eventsOf s (forLoop en (a # rest) s)) =
            [PuppeteerAttempt u,
             DbUpdate (rowId r) \<lparr>setBody = Some c, setStatusCheerio = None,
                                 setStatusPuppeteer = Some True\<rparr>] \<and>
          map scrapeStatusCheerio
            (map (\<lambda>row. if rowId row = rowId r
                        then row\<lparr>body := c, scrapeStatusPuppeteer := Some True\<rparr> else row)
               (contentsTable s)) =
            map scrapeStatusCheerio (contentsTable s)) \<and>
       ((\<forall>d. puppeteerRender en (length (trace s)) u = PageText d \<longrightarrow> length d < 200) \<longrightarrow>
          forLoop en (a # rest) s =
            forLoop en rest
              (s\<lparr>contentsTable :=
                    map (\<lambda>row. if rowId row = rowId r
                               then row\<lparr>scrapeStatusPuppeteer := Some False\<rparr> else row)
                      (contentsTable s),
                  stats := (stats s)\<lparr>puppeteerFailed := puppeteerFailed (stats s) + 1\<rparr>,
                  trace := trace s @
                    [PuppeteerAttempt u,
                     DbUpdate (rowId r) \<lparr>setBody = None, setStatusCheerio = None,
                                         setStatusPuppeteer = Some False\<rparr>]
                    @ (if rest = [] then [] else [Delay])\<rparr>) \<and>
          take 2 (eventsOf s (forLoop en (a # rest) s)) =
            [PuppeteerAttempt u,
             DbUpdate (rowId r) \<lparr>setBody = None, setStatusCheerio = None,
                                 setStatusPuppeteer = Some False\<rparr>] \<and>
          map scrapeStatusCheerio
            (map (\<lambda>row. if rowId row = rowId r
                        then row\<lparr>scrapeStatusPuppeteer := Some False\<rparr> else row)
               (contentsTable s)) =
            map scrapeStatusCheerio (contentsTable s) \<and>
          map body
            (map (\<lambda>row. if rowId row = rowId r
                        then row\<lparr>scrapeStatusPuppeteer := Some False\<rparr> else row)
               (contentsTable s)) =
            map body (contentsTable s)))"
proof (intro conjI impI)
  show "\<forall>v. CheerioAttempt v \<notin> set (eventsOf s (loopBody en a (rest = []) s))"
    using robust_iteration [OF assms, of s en "rest = []"] by simp
next
  assume "url a = None \<or> url a = Some []"
  from loopBody_skip [OF this, of en "rest = []" s]
  show "forLoop en (a # rest) s =
      forLoop en rest (s\<lparr>stats := (stats s)\<lparr>skipped := skipped (stats s) + 1\<rparr>\<rparr>)"
    by simp
next
  assume h: "url a = Some u \<and> u \<noteq> [] \<and> dbFault en (Suc (length (trace s))) = None"
    and ok: "puppeteerRender en (length (trace s)) u = PageText c \<and> 200 \<le> length c"
  let ?U = "DbUpdate (rowId r) \<lparr>setBody = Some c, setStatusCheerio = None,
                                 setStatusPuppeteer = Some True\<rparr>"
  let ?s1 = "s\<lparr>contentsTable :=
                    map (\<lambda>row. if rowId row = rowId r
                               then row\<lparr>body := c, scrapeStatusPuppeteer := Some True\<rparr> else row)
                      (contentsTable s),
                  stats := (stats s)\<lparr>puppeteerSuccess := puppeteerSuccess (stats s) + 1\<rparr>,
                  trace := trace s @ [PuppeteerAttempt u, ?U]
                    @ (if rest = [] then [] else [Delay])\<rparr>"
  from ok have acc: "accepted (resultFor (puppeteerRender en (length (trace s)) u))"
    "content (resultFor (puppeteerRender en (length (trace s)) u)) = Some c"
    by (simp_all add: accepted_resultFor content_resultFor)
  from h have "loopBody en a (rest = []) s = Returned () ?s1"
    using robust_iteration_state [OF assms, of u en s "rest = []"] acc
    by (simp add: Let_def applyValues_success)
  then show eq: "forLoop en (a # rest) s = forLoop en rest ?s1" by simp
  have "trace ?s1 = trace s @ [PuppeteerAttempt u, ?U] @ (if rest = [] then [] else [Delay])"
    by simp
  from events_after_continue [OF eq this]
  show "take 2 (eventsOf s (forLoop en (a # rest) s)) = [PuppeteerAttempt u, ?U]"
    by (simp add: numeral_2_eq_2 del: forLoop.simps)
  show "map scrapeStatusCheerio
            (map (\<lambda>row. if rowId row = rowId r
                        then row\<lparr>body := c, scrapeStatusPuppeteer := Some True\<rparr> else row)
               (contentsTable s)) =
            map scrapeStatusCheerio (contentsTable s)"
    by (simp add: comp_def)
next
  assume h: "url a = Some u \<and> u \<noteq> [] \<and> dbFault en (Suc (length (trace s))) = None"
    and short: "\<forall>d. puppeteerRender en (length (trace s)) u = PageText d \<longrightarrow> length d < 200"
  let ?U = "DbUpdate (rowId r) \<lparr>setBody = None, setStatusCheerio = None,
                                 setStatusPuppeteer = Some False\<rparr>"
  let ?s1 = "s\<lparr>contentsTable :=
                    map (\<lambda>row. if rowId row = rowId r
                               then row\<lparr>scrapeStatusPuppeteer := Some False\<rparr> else row)
                      (contentsTable s),
                  stats := (stats s)\<lparr>puppeteerFailed := puppeteerFailed (stats s) + 1\<rparr>,
                  trace := trace s @ [PuppeteerAttempt u, ?U]
                    @ (if rest = [] then [] else [Delay])\<rparr>"
  from short have na: "\<not> accepted (resultFor (puppeteerRender en (length (trace s)) u))"
    by (auto simp: accepted_resultFor)
  from h have "loopBody en a (rest = []) s = Returned () ?s1"
    using robust_iteration_state [OF assms, of u en s "rest = []"] na
    by (simp add: Let_def applyValues_failure)
  then show eq: "forLoop en (a # rest) s = forLoop en rest ?s1" by simp
  have "trace ?s1 = trace s @ [PuppeteerAttempt u, ?U] @ (if rest = [] then [] else [Delay])"
    by simp
  from events_after_continue [OF eq this]
  show "take 2 (eventsOf s (forLoop en (a # rest) s)) = [PuppeteerAttempt u, ?U]"
    by (simp add: numeral_2_eq_2 del: forLoop.simps)
  show "map scrapeStatusCheerio
            (map (\<lambda>row. if rowId row = rowId r
                        then row\<lparr>scrapeStatusPuppeteer := Some False\<rparr> else row)
               (contentsTable s)) =
            map scrapeStatusCheerio (contentsTable s)"
    by (simp add: comp_def)
  show "map body
            (map (\<lambda>row. if rowId row = rowId r
                        then row\<lparr>scrapeStatusPuppeteer := Some False\<rparr> else row)
               (contentsTable s)) =
            map body (contentsTable s)"
    by (simp add: comp_def)
qed


theorem robust_only_branch_witness:
  "forLoop rescueEnv [sampleArticle 3 [sampleRow 3 (Some False) None]]
     (initialState [] [sampleRow 3 (Some False) None]) =
     Returned ()
       \<lparr>articlesTable = [],
        contentsTable =
          [\<lparr>rowId = 3, articleId = 3, body = longText, scrapeStatusCheerio = Some False,
            scrapeStatusPuppeteer = Some True\<rparr>],
        stats = noStats\<lparr>puppeteerSuccess := 1\<rparr>,
        trace =
          [PuppeteerAttempt ''http://a'',
           DbUpdate 3 \<lparr>setBody = Some longText, setStatusCheerio = None,
                       setStatusPuppeteer = Some True\<rparr>]\<rparr> \<and>
   forLoop sampleEnv [sampleArticle 3 [sampleRow 3 (Some False) None]]
     (initialState [] [sampleRow 3 (Some False) None]) =
     Returned ()
       \<lparr>articlesTable = [],
        contentsTable =
          [\<lparr>rowId = 3, articleId = 3, body = [], scrapeStatusCheerio = Some False,
            scrapeStatusPuppeteer = Some False\<rparr>],
        stats = noStats\<lparr>puppeteerFailed := 1\<rparr>,
        trace =
          [PuppeteerAttempt ''http://a'',
           DbUpdate 3 \<lparr>setBody = None, setStatusCheerio = None,
                       setStatusPuppeteer = Some False\<rparr>]\<rparr> \<and>
   take 2 (eventsOf (initialState [] [sampleRow 3 (Some False) None])
     (forLoop sampleEnv
        [sampleArticle 3 [sampleRow 3 (Some False) None], sampleArticle 1 []]
        (initialState [] [sampleRow 3 (Some False) None]))) =
     [PuppeteerAttempt ''http://a'',
      DbUpdate 3 \<lparr>setBody = None, setStatusCheerio = None,
                  setStatusPuppeteer = Some False\<rparr>] \<and>
   trace (main rescueEnv [\<lparr>ident = 3, title = None, url = Some ''http://a''\<rparr>]
            [sampleRow 3 (Some False) None]) =
     [DbAuthenticate, DbFindAll, PuppeteerAttempt ''http://a'',
      DbUpdate 3 \<lparr>setBody = Some longText, setStatusCheerio = None,
                  setStatusPuppeteer = Some True\<rparr>,
      LogSuccessRate ''100.0'', DbClose, ProcessExit 0]"
proof -
  let ?r = "sampleRow 3 (Some False) None"
  have e: "existingContentOf (sampleArticle 3 [?r]) = Some ?r"
    and c: "scrapeStatusCheerio ?r = Some False" and p: "scrapeStatusPuppeteer ?r = None"
    by (simp_all add: existingContentOf_def sampleArticle_def sampleRow_def)
  have long: "200 \<le> length longText"
    by (simp add: longText_def)
  have rate: "toFixed1 (successRate (Suc 0) (Suc 0)) = ''100.0''"
  proof -
    have "toFixed1 (successRate 1 1) = ''100.0''"
      by (simp add: rate_defs)
    then show ?thesis by simp
  qed
  have run: "trace (main rescueEnv [\<lparr>ident = 3, title = None, url = Some ''http://a''\<rparr>] [?r]) =
     [DbAuthenticate, DbFindAll, PuppeteerAttempt ''http://a'',
      DbUpdate 3 \<lparr>setBody = Some longText, setStatusCheerio = None,
                  setStatusPuppeteer = Some True\<rparr>,
      LogSuccessRate ''100.0'', DbClose, ProcessExit 0]"
    by (simp add: run_defs rescueEnv_def sampleEnv_def sampleRow_def longText_def rate)
  let ?a = "sampleArticle 3 [?r]"
  let ?s = "initialState [] [?r]"
  have rid: "rowId ?r = 3"
    by (simp add: sampleRow_def)
  have h: "url ?a = Some ''http://a'' \<and> ''http://a'' \<noteq> [] \<and>
      dbFault en (Suc (length (trace ?s))) = None"
    if "dbFault en = (\<lambda>t. None)" for en
    using that by (simp add: sampleArticle_def)
  have d: "dbFault rescueEnv = (\<lambda>t. None)" "dbFault sampleEnv = (\<lambda>t. None)"
    by (simp_all add: rescueEnv_def sampleEnv_def)
  have good: "puppeteerRender rescueEnv (length (trace ?s)) ''http://a'' = PageText longText \<and>
      200 \<le> length longText"
    using long by (simp add: rescueEnv_def)
  have bad: "\<forall>d. puppeteerRender sampleEnv (length (trace ?s)) ''http://a'' = PageText d \<longrightarrow>
      length d < 200"
    by (simp add: sampleEnv_def)
  from robust_only_branch [OF e c p, of ?s rescueEnv "[]" "''http://a''" longText]
    h [OF d(1)] good
  have "forLoop rescueEnv [?a] ?s =
      forLoop rescueEnv []
        (?s\<lparr>contentsTable :=
               map (\<lambda>row. if rowId row = rowId ?r
                          then row\<lparr>body := longText, scrapeStatusPuppeteer := Some True\<rparr>
                          else row)
                 (contentsTable ?s),
             stats := (stats ?s)\<lparr>puppeteerSuccess := puppeteerSuccess (stats ?s) + 1\<rparr>,
             trace := trace ?s @
               [PuppeteerAttempt ''http://a'',
                DbUpdate (rowId ?r) \<lparr>setBody = Some longText, setStatusCheerio = None,
                                     setStatusPuppeteer = Some True\<rparr>]
               @ (if [] = ([] :: LoadedArticle list) then [] else [Delay])\<rparr>)"
    by blast
  also have "\<dots> =
     Returned ()
       \<lparr>articlesTable = [],
        contentsTable =
          [\<lparr>rowId = 3, articleId = 3, body = longText, scrapeStatusCheerio = Some False,
            scrapeStatusPuppeteer = Some True\<rparr>],
        stats = noStats\<lparr>puppeteerSuccess := 1\<rparr>,
        trace =
          [PuppeteerAttempt ''http://a'',
           DbUpdate 3 \<lparr>setBody = Some longText, setStatusCheerio = None,
                       setStatusPuppeteer = Some True\<rparr>]\<rparr>"
    by (simp add: initialState_def sampleRow_def noStats_def)
  finally have one: "forLoop rescueEnv [?a] ?s =
     Returned ()
       \<lparr>articlesTable = [],
        contentsTable =
          [\<lparr>rowId = 3, articleId = 3, body = longText, scrapeStatusCheerio = Some False,
            scrapeStatusPuppeteer = Some True\<rparr>],
        stats = noStats\<lparr>puppeteerSuccess := 1\<rparr>,
        trace =
          [PuppeteerAttempt ''http://a'',
           DbUpdate 3 \<lparr>setBody = Some longText, setStatusCheerio = None,
                       setStatusPuppeteer = Some True\<rparr>]\<rparr>" .
  from robust_only_branch [OF e c p, of ?s sampleEnv "[]" "''http://a''"]
    h [OF d(2)] bad
  have "forLoop sampleEnv [?a] ?s =
      forLoop sampleEnv []
        (?s\<lparr>contentsTable :=
               map (\<lambda>row. if rowId row = rowId ?r
                          then row\<lparr>scrapeStatusPuppeteer := Some False\<rparr> else row)
                 (contentsTable ?s),
             stats := (stats ?s)\<lparr>puppeteerFailed := puppeteerFailed (stats ?s) + 1\<rparr>,
             trace := trace ?s @
               [PuppeteerAttempt ''http://a'',
                DbUpdate (rowId ?r) \<lparr>setBody = None, setStatusCheerio = None,
                                     setStatusPuppeteer = Some False\<rparr>]
               @ (if [] = ([] :: LoadedArticle list) then [] else [Delay])\<rparr>)"
    by blast
  also have "\<dots> =
     Returned ()
       \<lparr>articlesTable = [],
        contentsTable =
          [\<lparr>rowId = 3, articleId = 3, body = [], scrapeStatusCheerio = Some False,
            scrapeStatusPuppeteer = Some False\<rparr>],
        stats = noStats\<lparr>puppeteerFailed := 1\<rparr>,
        trace =
          [PuppeteerAttempt ''http://a'',
           DbUpdate 3 \<lparr>setBody = None, setStatusCheerio = None,
                       setStatusPuppeteer = Some False\<rparr>]\<rparr>"
    by (simp add: initialState_def sampleRow_def noStats_def)
  finally have two: "forLoop sampleEnv [?a] ?s =
     Returned ()
       \<lparr>articlesTable = [],
        contentsTable =
          [\<lparr>rowId = 3, articleId = 3, body = [], scrapeStatusCheerio = Some False,
            scrapeStatusPuppeteer = Some False\<rparr>],
        stats = noStats\<lparr>puppeteerFailed := 1\<rparr>,
        trace =
          [PuppeteerAttempt ''http://a'',
           DbUpdate 3 \<lparr>setBody = None, setStatusCheerio = None,
                       setStatusPuppeteer = Some False\<rparr>]\<rparr>" .
  from robust_only_branch [OF e c p, of ?s sampleEnv "[sampleArticle 1 []]" "''http://a''"]
    h [OF d(2)] bad
  have "take 2 (eventsOf ?s (forLoop sampleEnv [?a, sampleArticle 1 []] ?s)) =
     [PuppeteerAttempt ''http://a'',
      DbUpdate (rowId ?r) \<lparr>setBody = None, setStatusCheerio = None,
                           setStatusPuppeteer = Some False\<rparr>]"
    by blast
  then have three: "take 2 (eventsOf ?s (forLoop sampleEnv [?a, sampleArticle 1 []] ?s)) =
     [PuppeteerAttempt ''http://a'',
      DbUpdate 3 \<lparr>setBody = None, setStatusCheerio = None,
                  setStatusPuppeteer = Some False\<rparr>]"
    by (simp only: rid)
  from one two three run show ?thesis by (intro conjI)
qed

lemma recordPuppeteer_keeps:
  "map (\<lambda>row. (rowId row, articleId row, scrapeStatusCheerio row))
     (contentsTable (stateOf (recordPuppeteer en a ex res s))) =
   map (\<lambda>row. (rowId row, articleId row, scrapeStatusCheerio row)) (contentsTable s)"
  by (auto simp: recordPuppeteer_def Let_def stateOf_andThen findOne_def update_def dbCall_def
      count_def applyValues_def split: option.splits outcome.splits)

lemma loopBody_cheerio:
  assumes "url a = Some u" and "u \<noteq> []" and "needsCheerio (existingContentOf a)"
  shows "loopBody en a lastOne s =
    andThen (cheerioBranch en a u (existingContentOf a) s)
      (\<lambda>_ s1. Returned () (if lastOne then s1 else emit Delay s1))"
  using assms by (simp add: loopBody_def Let_def)

lemma cheerioBranch_created:
  assumes "cheerioFetch en (length (trace s)) u = PageText c" and "200 \<le> length c"
  shows "cheerioBranch en a u None s =
     (let row = \<lparr>rowId = freshRowId (contentsTable s), articleId = ident a, body = c,
                 scrapeStatusCheerio = Some True, scrapeStatusPuppeteer = None\<rparr>
      in case dbFault en (Suc (length (trace s))) of
           Some x \<Rightarrow> Threw x (s\<lparr>trace := trace s @ [CheerioAttempt u, DbCreate row]\<rparr>)
         | None \<Rightarrow>
             Returned ()
               (s\<lparr>contentsTable := contentsTable s @ [row],
                   stats := (stats s)\<lparr>cheerioSuccess := cheerioSuccess (stats s) + 1\<rparr>,
                   trace := trace s @ [CheerioAttempt u, DbCreate row]\<rparr>))"
proof -
  from assms have "accepted (resultFor (cheerioFetch en (length (trace s)) u))"
    "content (resultFor (cheerioFetch en (length (trace s)) u)) = Some c"
    by (simp_all add: accepted_resultFor content_resultFor)
  then show ?thesis
    by (simp add: cheerioBranch_def attemptCheerio_eq create_def dbCall_def count_def emit_def
        Let_def split: option.splits)
qed

lemma cheerioBranch_failed:
  assumes "\<not> accepted (resultFor (cheerioFetch en (length (trace s)) u))"
    and "dbFault en (Suc (length (trace s))) = None"
  shows "cheerioBranch en a u ex s =
     (let w = (case ex of
                 None \<Rightarrow>
                   DbCreate \<lparr>rowId = freshRowId (contentsTable s), articleId = ident a, body = [],
                             scrapeStatusCheerio = Some False, scrapeStatusPuppeteer = None\<rparr>
               | Some r \<Rightarrow>
                   DbUpdate (rowId r) \<lparr>setBody = None, setStatusCheerio = Some False,
                                       setStatusPuppeteer = None\<rparr>);
          t = (case ex of
                 None \<Rightarrow>
                   contentsTable s @
                   [\<lparr>rowId = freshRowId (contentsTable s), articleId = ident a, body = [],
                     scrapeStatusCheerio = Some False, scrapeStatusPuppeteer = None\<rparr>]
               | Some r \<Rightarrow>
                   map (\<lambda>row. if rowId row = rowId r
                              then applyValues \<lparr>setBody = None, setStatusCheerio = Some False,
                                                 setStatusPuppeteer = None\<rparr> row
                              else row)
                     (contentsTable s))
      in recordPuppeteer en a ex (resultFor (puppeteerRender en (length (trace s) + 2) u))
           (s\<lparr>contentsTable := t,
               stats := (stats s)\<lparr>cheerioFailed := cheerioFailed (stats s) + 1\<rparr>,
               trace := trace s @ [CheerioAttempt u, w, PuppeteerAttempt u]\<rparr>))"
  using assms
  by (cases ex)
    (simp_all add: cheerioBranch_def attemptCheerio_eq attemptPuppeteer_eq create_def update_def
      dbCall_def count_def emit_def applyValues_def Let_def)

text \<open>
  C6. For an article with a URL and no record, the Cheerio attempt is followed by
  the creation of a record, whatever the result: with the extracted text, Cheerio status
  \<^verbatim>\<open>true\<close> and Puppeteer status \<^verbatim>\<open>null\<close> on success, with the empty text,
  Cheerio status \<^verbatim>\<open>false\<close> and Puppeteer status \<^verbatim>\<open>null\<close> on failure. Where
  the creation does not throw, the table holds that record after a success, and after a
  failure a record with that key that still says that Cheerio failed.
\<close>

theorem record_created_on_first_attempt:
  assumes "url a = Some u" and "u \<noteq> []" and "existingContentOf a = None"
  shows
    "(cheerioFetch en (length (trace s)) u = PageText c \<and> 200 \<le> length c \<longrightarrow>
        take 2 (eventsOf s (loopBody en a lastOne s)) =
          [CheerioAttempt u,
           DbCreate \<lparr>rowId = freshRowId (contentsTable s), articleId = ident a, body = c,
                     scrapeStatusCheerio = Some True, scrapeStatusPuppeteer = None\<rparr>] \<and>
        (dbFault en (Suc (length (trace s))) = None \<longrightarrow>
           contentsTable (stateOf (loopBody en a lastOne s)) =
             contentsTable s @
             [\<lparr>rowId = freshRowId (contentsTable s), articleId = ident a, body = c,
               scrapeStatusCheerio = Some True, scrapeStatusPuppeteer = None\<rparr>])) \<and>
     ((\<forall>d. cheerioFetch en (length (trace s)) u = PageText d \<longrightarrow> length d < 200) \<longrightarrow>
        take 2 (eventsOf s (loopBody en a lastOne s)) =
          [CheerioAttempt u,
           DbCreate \<lparr>rowId = freshRowId (contentsTable s), articleId = ident a, body = [],
                     scrapeStatusCheerio = Some False, scrapeStatusPuppeteer = None\<rparr>] \<and>
        (dbFault en (Suc (length (trace s))) = None \<longrightarrow>
           (\<exists>row \<in> set (contentsTable (stateOf (loopBody en a lastOne s))).
              rowId row = freshRowId (contentsTable s) \<and> articleId row = ident a \<and>
              scrapeStatusCheerio row = Some False)))"
proof -
  let ?t = "length (trace s)"
  let ?out = "loopBody en a lastOne s"
  from assms have body: "?out =
    andThen (cheerioBranch en a u None s)
      (\<lambda>_ s1. Returned () (if lastOne then s1 else emit Delay s1))"
    by (simp add: loopBody_cheerio needsCheerio_def)
  have success:
    "take 2 (eventsOf s ?out) =
       [CheerioAttempt u,
        DbCreate \<lparr>rowId = freshRowId (contentsTable s), articleId = ident a, body = c,
                  scrapeStatusCheerio = Some True, scrapeStatusPuppeteer = None\<rparr>] \<and>
     (dbFault en (Suc ?t) = None \<longrightarrow>
        contentsTable (stateOf ?out) =
          contentsTable s @
          [\<lparr>rowId = freshRowId (contentsTable s), articleId = ident a, body = c,
            scrapeStatusCheerio = Some True, scrapeStatusPuppeteer = None\<rparr>])"
    if ok: "cheerioFetch en ?t u = PageText c" "200 \<le> length c"
    by (simp add: body cheerioBranch_created [OF ok] eventsOf_def Let_def emit_def
        split: option.splits)
  have failure:
    "take 2 (eventsOf s ?out) =
       [CheerioAttempt u,
        DbCreate \<lparr>rowId = freshRowId (contentsTable s), articleId = ident a, body = [],
                  scrapeStatusCheerio = Some False, scrapeStatusPuppeteer = None\<rparr>] \<and>
     (dbFault en (Suc ?t) = None \<longrightarrow>
        (\<exists>row \<in> set (contentsTable (stateOf ?out)).
           rowId row = freshRowId (contentsTable s) \<and> articleId row = ident a \<and>
           scrapeStatusCheerio row = Some False))"
    if short: "\<forall>d. cheerioFetch en ?t u = PageText d \<longrightarrow> length d < 200"
  proof -
    let ?row = "\<lparr>rowId = freshRowId (contentsTable s), articleId = ident a, body = [],
                 scrapeStatusCheerio = Some False, scrapeStatusPuppeteer = None\<rparr>"
    from short have na: "\<not> accepted (resultFor (cheerioFetch en ?t u))"
      by (auto simp: accepted_resultFor)
    show ?thesis
    proof (cases "dbFault en (Suc ?t)")
      case (Some x)
      with na show ?thesis
        by (simp add: body cheerioBranch_def attemptCheerio_eq create_def dbCall_def
            eventsOf_def emit_def Let_def)
    next
      case None
      let ?s3 = "s\<lparr>contentsTable := contentsTable s @ [?row],
                   stats := (stats s)\<lparr>cheerioFailed := cheerioFailed (stats s) + 1\<rparr>,
                   trace := trace s @ [CheerioAttempt u, DbCreate ?row, PuppeteerAttempt u]\<rparr>"
      let ?rp = "recordPuppeteer en a None (resultFor (puppeteerRender en (?t + 2) u)) ?s3"
      have cb: "cheerioBranch en a u None s = ?rp"
        using cheerioBranch_failed [OF na None, of a None] by (simp add: Let_def)
      obtain tl where tl: "trace (stateOf ?rp) = trace ?s3 @ tl"
        using extends_recordPuppeteer [of en a None _ ?s3] by blast
      have "\<exists>tl'. trace (stateOf ?out) = trace (stateOf ?rp) @ tl'"
        by (cases ?rp) (simp_all add: body cb)
      with tl have ev: "take 2 (eventsOf s ?out) = [CheerioAttempt u, DbCreate ?row]"
        by (auto simp: eventsOf_def)
      have "contentsTable (stateOf ?out) = contentsTable (stateOf ?rp)"
        by (cases ?rp) (simp_all add: body cb)
      with recordPuppeteer_keeps [of en a None _ ?s3]
      have "map (\<lambda>row. (rowId row, articleId row, scrapeStatusCheerio row))
              (contentsTable (stateOf ?out)) =
            map (\<lambda>row. (rowId row, articleId row, scrapeStatusCheerio row))
              (contentsTable s @ [?row])"
        by simp
      then have "(freshRowId (contentsTable s), ident a, Some False) \<in>
          set (map (\<lambda>row. (rowId row, articleId row, scrapeStatusCheerio row))
                 (contentsTable (stateOf ?out)))"
        by simp
      then have "\<exists>row \<in> set (contentsTable (stateOf ?out)).
              rowId row = freshRowId (contentsTable s) \<and> articleId row = ident a \<and>
              scrapeStatusCheerio row = Some False"
        by (auto simp del: map_append)
      with ev show ?thesis by simp
    qed
  qed
  from success failure show ?thesis by blast
qed


theorem record_created_on_first_attempt_witness:
  "take 2 (eventsOf (initialState [] [])
             (loopBody sampleEnv (sampleArticle 1 []) True (initialState [] []))) =
     [CheerioAttempt ''http://a'',
      DbCreate \<lparr>rowId = 1, articleId = 1, body = longText, scrapeStatusCheerio = Some True,
                scrapeStatusPuppeteer = None\<rparr>] \<and>
   contentsTable (stateOf (loopBody sampleEnv (sampleArticle 1 []) True (initialState [] []))) =
     [\<lparr>rowId = 1, articleId = 1, body = longText, scrapeStatusCheerio = Some True,
       scrapeStatusPuppeteer = None\<rparr>] \<and>
   take 2 (eventsOf (initialState [] [])
             (loopBody sampleEnv (loadArticle [] (sampleArticles ! 1)) True
                (initialState [] []))) =
     [CheerioAttempt ''http://b'',
      DbCreate \<lparr>rowId = 1, articleId = 2, body = [], scrapeStatusCheerio = Some False,
                scrapeStatusPuppeteer = None\<rparr>] \<and>
   (\<exists>row \<in> set (contentsTable (stateOf
        (loopBody sampleEnv (loadArticle [] (sampleArticles ! 1)) True (initialState [] [])))).
      rowId row = 1 \<and> articleId row = 2 \<and> scrapeStatusCheerio row = Some False)"
proof -
  have a: "url (sampleArticle 1 []) = Some ''http://a''" "''http://a'' \<noteq> []"
    "existingContentOf (sampleArticle 1 []) = None"
    by (simp_all add: sampleArticle_def existingContentOf_def)
  have b: "url (loadArticle [] (sampleArticles ! 1)) = Some ''http://b''" "''http://b'' \<noteq> []"
    "existingContentOf (loadArticle [] (sampleArticles ! 1)) = None"
    by (simp_all add: sampleArticles_def loadArticle_def existingContentOf_def)
  have long: "200 \<le> length longText"
    by (simp add: longText_def)
  from record_created_on_first_attempt [OF a, of sampleEnv "initialState [] []" longText True]
    record_created_on_first_attempt [OF b, of sampleEnv "initialState [] []" _ True]
    long
  show ?thesis
    by (simp add: sampleEnv_def initialState_def freshRowId_def sampleArticle_def
        sampleArticles_def loadArticle_def)
qed

lemma extends_andThen_from:
  assumes "\<exists>tl. trace (stateOf m) = pre @ tl"
    and "\<And>v s1. \<exists>tl. trace (stateOf (k v s1)) = trace s1 @ tl"
  shows "\<exists>tl. trace (stateOf (andThen m k)) = pre @ tl"
proof (cases m)
  case (Returned v s1)
  with assms(1) obtain tl where a: "trace s1 = pre @ tl" by auto
  from assms(2) [of v s1] obtain tl' where "trace (stateOf (k v s1)) = trace s1 @ tl'" by auto
  with a Returned show ?thesis by simp
next
  case (Threw x s1)
  with assms(1) show ?thesis by simp
qed

text \<open>
  C2. For an article with a URL that needs the Cheerio attempt: when Cheerio's result is
  accepted, the iteration of this article makes no Puppeteer attempt; when it is not, and
  the write that records the failure does not throw, the pass goes on with the Cheerio
  attempt, that write and the Puppeteer attempt on the same URL, before anything else.
\<close>

theorem cascade_within_pass:
  assumes "url a = Some u" and "u \<noteq> []" and "needsCheerio (existingContentOf a)"
  shows
    "(accepted (resultFor (cheerioFetch en (length (trace s)) u)) \<longrightarrow>
        (\<forall>v. PuppeteerAttempt v \<notin> set (eventsOf s (loopBody en a lastOne s)))) \<and>
     (\<not> accepted (resultFor (cheerioFetch en (length (trace s)) u)) \<and>
      dbFault en (Suc (length (trace s))) = None \<longrightarrow>
        take 3 (eventsOf s (forLoop en (a # rest) s)) =
          [CheerioAttempt u,
           (case existingContentOf a of
              None \<Rightarrow>
                DbCreate \<lparr>rowId = freshRowId (contentsTable s), articleId = ident a, body = [],
                          scrapeStatusCheerio = Some False, scrapeStatusPuppeteer = None\<rparr>
            | Some r \<Rightarrow>
                DbUpdate (rowId r) \<lparr>setBody = None, setStatusCheerio = Some False,
                                    setStatusPuppeteer = None\<rparr>),
           PuppeteerAttempt u])"
proof (intro conjI impI)
  assume acc: "accepted (resultFor (cheerioFetch en (length (trace s)) u))"
  then obtain c where "content (resultFor (cheerioFetch en (length (trace s)) u)) = Some c"
    by (auto simp: accepted_def split: option.splits)
  with acc show "\<forall>v. PuppeteerAttempt v \<notin> set (eventsOf s (loopBody en a lastOne s))"
    by (auto simp: loopBody_cheerio [OF assms] cheerioBranch_def attemptCheerio_eq update_def
        create_def dbCall_def count_def emit_def eventsOf_def Let_def split: option.splits)
next
  let ?w = "case existingContentOf a of
              None \<Rightarrow>
                DbCreate \<lparr>rowId = freshRowId (contentsTable s), articleId = ident a, body = [],
                          scrapeStatusCheerio = Some False, scrapeStatusPuppeteer = None\<rparr>
            | Some r \<Rightarrow>
                DbUpdate (rowId r) \<lparr>setBody = None, setStatusCheerio = Some False,
                                    setStatusPuppeteer = None\<rparr>"
  let ?pre = "trace s @ [CheerioAttempt u, ?w, PuppeteerAttempt u]"
  assume "\<not> accepted (resultFor (cheerioFetch en (length (trace s)) u)) \<and>
      dbFault en (Suc (length (trace s))) = None"
  then have na: "\<not> accepted (resultFor (cheerioFetch en (length (trace s)) u))"
    and ok: "dbFault en (Suc (length (trace s))) = None"
    by simp_all
  let ?t = "case existingContentOf a of
              None \<Rightarrow>
                contentsTable s @
                [\<lparr>rowId = freshRowId (contentsTable s), articleId = ident a, body = [],
                  scrapeStatusCheerio = Some False, scrapeStatusPuppeteer = None\<rparr>]
            | Some r \<Rightarrow>
                map (\<lambda>row. if rowId row = rowId r
                           then applyValues \<lparr>setBody = None, setStatusCheerio = Some False,
                                              setStatusPuppeteer = None\<rparr> row
                           else row)
                  (contentsTable s)"
  let ?s3 = "s\<lparr>contentsTable := ?t,
               stats := (stats s)\<lparr>cheerioFailed := cheerioFailed (stats s) + 1\<rparr>,
               trace := ?pre\<rparr>"
  let ?rp = "recordPuppeteer en a (existingContentOf a)
               (resultFor (puppeteerRender en (length (trace s) + 2) u)) ?s3"
  have cb: "cheerioBranch en a u (existingContentOf a) s = ?rp"
    using cheerioBranch_failed [OF na ok, of a "existingContentOf a"] by (simp add: Let_def)
  obtain tl where "trace (stateOf ?rp) = trace ?s3 @ tl"
    using extends_recordPuppeteer [of en a "existingContentOf a" _ ?s3] by blast
  then have "\<exists>tl. trace (stateOf (cheerioBranch en a u (existingContentOf a) s)) = ?pre @ tl"
    by (simp add: cb)
  then have "\<exists>tl. trace (stateOf (loopBody en a (rest = []) s)) = ?pre @ tl"
    unfolding loopBody_cheerio [OF assms]
    by (rule extends_andThen_from) simp
  then have "\<exists>tl. trace (stateOf (forLoop en (a # rest) s)) = ?pre @ tl"
    unfolding forLoop.simps
    by (rule extends_andThen_from) (rule extends_forLoop)
  then show "take 3 (eventsOf s (forLoop en (a # rest) s)) =
      [CheerioAttempt u, ?w, PuppeteerAttempt u]"
    by (auto simp: eventsOf_def)
qed

theorem cascade_within_pass_witness:
  "(\<forall>v. PuppeteerAttempt v \<notin>
      set (eventsOf (initialState [] [])
             (loopBody sampleEnv (sampleArticle 1 []) False (initialState [] [])))) \<and>
   take 3 (eventsOf (initialState [] [])
             (forLoop sampleEnv
                [loadArticle [] (sampleArticles ! 1), loadArticle [] (sampleArticles ! 2)]
                (initialState [] []))) =
     [CheerioAttempt ''http://b'',
      DbCreate \<lparr>rowId = 1, articleId = 2, body = [], scrapeStatusCheerio = Some False,
                scrapeStatusPuppeteer = None\<rparr>,
      PuppeteerAttempt ''http://b'']"
proof -
  have a: "url (sampleArticle 1 []) = Some ''http://a''" "''http://a'' \<noteq> []"
    "needsCheerio (existingContentOf (sampleArticle 1 []))"
    by (simp_all add: sampleArticle_def existingContentOf_def needsCheerio_def)
  have b: "url (loadArticle [] (sampleArticles ! 1)) = Some ''http://b''" "''http://b'' \<noteq> []"
    "needsCheerio (existingContentOf (loadArticle [] (sampleArticles ! 1)))"
    by (simp_all add: sampleArticles_def loadArticle_def existingContentOf_def needsCheerio_def)
  from cascade_within_pass [OF a, of sampleEnv "initialState [] []" False]
    cascade_within_pass [OF b, of sampleEnv "initialState [] []" _
      "[loadArticle [] (sampleArticles ! 2)]"]
  show ?thesis
    by (simp add: sampleEnv_def initialState_def freshRowId_def accepted_resultFor longText_def
        sampleArticles_def loadArticle_def existingContentOf_def)
qed

section \<open>The success rate\<close>

lemma bitLength_upper: "n < 2 ^ bitLength n"
proof (induction n rule: bitLength.induct)
  case (1 n)
  show ?case
  proof (cases "n = 0")
    case True
    then show ?thesis by (simp add: bitLength.simps)
  next
    case False
    with 1 have "n div 2 < 2 ^ bitLength (n div 2)" by simp
    then have "n < 2 * 2 ^ bitLength (n div 2)" by linarith
    with False show ?thesis by (subst bitLength.simps) simp
  qed
qed

lemma bitLength_lower: "0 < n \<Longrightarrow> 2 ^ bitLength n \<le> 2 * n"
proof (induction n rule: bitLength.induct)
  case (1 n)
  show ?case
  proof (cases "n div 2 = 0")
    case True
    with 1(2) have "n = 1" by (simp add: div_eq_0_iff) 
    then show ?thesis by (simp add: bitLength.simps)
  next
    case False
    with 1 have "2 ^ bitLength (n div 2) \<le> 2 * (n div 2)" by simp
    then have "2 * 2 ^ bitLength (n div 2) \<le> 2 * n" by linarith
    with 1(2) show ?thesis by (subst bitLength.simps) simp
  qed
qed

lemma roundHalfEven_error:
  assumes "0 < b"
  shows "\<bar>real (roundHalfEven a b) - real a / real b\<bar> \<le> 1 / 2"
proof -
  let ?q = "a div b" and ?r = "a mod b"
  have a: "real a = real ?q * real b + real ?r"
    by (metis div_mult_mod_eq of_nat_add of_nat_mult)
  have rb: "?r < b" using assms by simp
  have d: "real a / real b = real ?q + real ?r / real b"
    using assms by (simp add: a field_simps)
  have r0: "0 \<le> real ?r / real b" by simp
  have r1: "real ?r / real b < 1" using rb assms by simp
  consider "2 * ?r < b" | "b < 2 * ?r" | "2 * ?r = b" by linarith
  then show ?thesis
  proof cases
    case 1
    then have "real ?r / real b \<le> 1 / 2" using assms by (simp add: field_simps)
    with 1 r0 show ?thesis by (simp add: roundHalfEven_def Let_def d)
  next
    case 2
    then have "1 / 2 \<le> real ?r / real b" using assms by (simp add: field_simps)
    with 2 r1 show ?thesis by (simp add: roundHalfEven_def Let_def d)
  next
    case 3
    then have "real ?r / real b = 1 / 2" using assms by (simp add: field_simps)
    with 3 show ?thesis by (simp add: roundHalfEven_def Let_def d)
  qed
qed


lemma scaleFor_bounds:
  assumes "0 < a" and "0 < b"
  shows "2 ^ 52 \<le> real a / real b * 2 powi scaleFor a b \<and>
         real a / real b * 2 powi scaleFor a b < 2 ^ 53"
proof -
  let ?la = "bitLength a" and ?lb = "bitLength b"
  let ?R = "(real a * 2 ^ ?lb) / (real b * 2 ^ ?la)"
  have pos: "0 < real b * 2 ^ ?la" using assms by simp
  have shift: "(2::real) powi (c - (int ?la - int ?lb)) = 2 powi c * 2 ^ ?lb / 2 ^ ?la" for c
  proof -
    have "(2::real) powi (c - (int ?la - int ?lb)) = 2 powi (c + int ?lb - int ?la)"
      by (simp add: algebra_simps)
    also have "\<dots> = 2 powi (c + int ?lb) / 2 powi (int ?la)"
      by (rule power_int_diff) simp
    also have "\<dots> = 2 powi c * 2 powi (int ?lb) / 2 powi (int ?la)"
      by (simp add: power_int_add)
    finally show ?thesis by simp
  qed
  have val: "real a / real b * 2 powi (c - (int ?la - int ?lb)) = 2 powi c * ?R" for c
    by (simp add: shift)
  have "real (a * 2 ^ ?lb) < real (2 ^ ?la * (2 * b))"
  proof -
    have "a * 2 ^ ?lb < 2 ^ ?la * 2 ^ ?lb"
      using bitLength_upper [of a] by simp
    also have "\<dots> \<le> 2 ^ ?la * (2 * b)"
      using bitLength_lower [OF assms(2)] by simp
    finally show ?thesis by (simp only: of_nat_less_iff)
  qed
  then have lt2: "?R < 2" using pos by (simp add: field_simps)
  have "real (b * 2 ^ ?la) < real (2 ^ ?lb * (2 * a))"
  proof -
    have "b * 2 ^ ?la < 2 ^ ?lb * 2 ^ ?la"
      using bitLength_upper [of b] by simp
    also have "\<dots> \<le> 2 ^ ?lb * (2 * a)"
      using bitLength_lower [OF assms(1)] by simp
    finally show ?thesis by (simp only: of_nat_less_iff)
  qed
  then have gt_half: "1 / 2 < ?R" using pos by (simp add: field_simps)
  show ?thesis
  proof (cases "b * 2 ^ ?la \<le> a * 2 ^ ?lb")
    case True
    then have k: "scaleFor a b = 52 - (int ?la - int ?lb)"
      by (simp add: scaleFor_def Let_def)
    from True have "real (b * 2 ^ ?la) \<le> real (a * 2 ^ ?lb)"
      by (simp only: of_nat_le_iff)
    then have "1 \<le> ?R" using pos by (simp add: field_simps)
    with lt2 show ?thesis unfolding k val by simp
  next
    case False
    then have k: "scaleFor a b = 53 - (int ?la - int ?lb)"
      by (simp add: scaleFor_def Let_def)
    from False have "real (a * 2 ^ ?lb) < real (b * 2 ^ ?la)"
      by (simp only: of_nat_less_iff not_le)
    then have "?R < 1" using pos by (simp add: field_simps)
    with gt_half show ?thesis unfolding k val by simp
  qed
qed


lemma nearestDouble_error:
  assumes "0 < b"
  shows "\<bar>valueOf (nearestDouble a b e) - real a / real b * 2 powi e\<bar>
           \<le> real a / real b * 2 powi e / 2 ^ 53"
proof (cases "a = 0")
  case True
  then show ?thesis by (simp add: nearestDouble_def valueOf_def)
next
  case False
  then have a: "0 < a" by simp
  let ?k = "scaleFor a b"
  let ?X = "real a / real b * 2 powi ?k"
  let ?m = "if 0 \<le> ?k then roundHalfEven (a * 2 ^ nat ?k) b
            else roundHalfEven a (b * 2 ^ nat (- ?k))"
  let ?s = "(2::real) powi e / 2 powi ?k"
  let ?V = "real a / real b * 2 powi e"
  have nd: "nearestDouble a b e = \<lparr>mant = ?m, expo = e - ?k\<rparr>"
    using False by (simp add: nearestDouble_def Let_def)
  have mX: "\<bar>real ?m - ?X\<bar> \<le> 1 / 2"
  proof (cases "0 \<le> ?k")
    case True
    then have p2: "(2::real) powi ?k = 2 ^ nat ?k" by (simp add: power_int_def)
    have eq: "real (a * 2 ^ nat ?k) / real b = ?X"
      unfolding p2 by simp
    have m: "?m = roundHalfEven (a * 2 ^ nat ?k) b"
      using True by simp
    have "\<bar>real (roundHalfEven (a * 2 ^ nat ?k) b) - real (a * 2 ^ nat ?k) / real b\<bar> \<le> 1 / 2"
      by (rule roundHalfEven_error [OF assms])
    then show ?thesis unfolding m eq .
  next
    case False
    then have p2: "(2::real) powi ?k = 1 / 2 ^ nat (- ?k)"
      by (simp add: power_int_def field_simps)
    have eq: "real a / real (b * 2 ^ nat (- ?k)) = ?X"
      unfolding p2 by simp
    have m: "?m = roundHalfEven a (b * 2 ^ nat (- ?k))"
      using False by simp
    have "0 < b * 2 ^ nat (- ?k)" using assms by simp
    then have "\<bar>real (roundHalfEven a (b * 2 ^ nat (- ?k))) - real a / real (b * 2 ^ nat (- ?k))\<bar>
        \<le> 1 / 2"
      by (rule roundHalfEven_error)
    then show ?thesis unfolding m eq .
  qed
  have spos: "0 < ?s" by simp
  have v: "valueOf (nearestDouble a b e) = real ?m * ?s"
    by (simp add: nd valueOf_def power_int_diff)
  have V: "?V = ?X * ?s" by simp
  have gen: "\<bar>m * s - X * s\<bar> = \<bar>m - X\<bar> * s" if "0 < s" for m X s :: real
    using that by (simp add: abs_mult flip: left_diff_distrib)
  have "\<bar>valueOf (nearestDouble a b e) - ?V\<bar> = \<bar>real ?m - ?X\<bar> * ?s"
    unfolding v V by (rule gen [OF spos])
  also have "\<dots> \<le> 1 / 2 * ?s"
    using mX spos by (intro mult_right_mono) simp_all
  also have "\<dots> \<le> ?V / 2 ^ 53"
  proof -
    from scaleFor_bounds [OF a assms] have "2 ^ 52 \<le> ?X" by simp
    then have "2 ^ 52 * ?s \<le> ?X * ?s" using spos by (intro mult_right_mono) simp_all
    then have "2 ^ 52 * ?s \<le> ?V" by (simp only: V)
    moreover have "1 / 2 * S \<le> W / 2 ^ 53" if "2 ^ 52 * S \<le> W" for S W :: real
      using that by simp
    ultimately show ?thesis by blast
  qed
  finally show ?thesis .
qed

lemma toFixedTenths_floor:
  "int (toFixedTenths x) = \<lfloor>10 * valueOf x + 1 / 2\<rfloor>"
proof (cases "0 \<le> expo x")
  case True
  then have "(2::real) powi expo x = 2 ^ nat (expo x)" by (simp add: power_int_def)
  then have "10 * valueOf x + 1 / 2 = real (10 * mant x * 2 ^ nat (expo x)) + 1 / 2"
    by (simp add: valueOf_def)
  also have "\<lfloor>\<dots>\<rfloor> = int (10 * mant x * 2 ^ nat (expo x))"
    by (simp only: floor_eq_iff) simp
  finally show ?thesis using True by (simp add: toFixedTenths_def)
next
  case False
  let ?k = "nat (- expo x)"
  from False have "(2::real) powi expo x = 1 / 2 ^ ?k"
    by (simp add: power_int_def field_simps)
  then have "10 * valueOf x + 1 / 2 = real (20 * mant x + 2 ^ ?k) / real (2 * 2 ^ ?k)"
    by (simp add: valueOf_def field_simps)
  also have "\<lfloor>\<dots>\<rfloor> = int ((20 * mant x + 2 ^ ?k) div (2 * 2 ^ ?k))"
    by (rule floor_divide_of_nat_eq)
  finally show ?thesis using False by (simp add: toFixedTenths_def)
qed


lemma successRate_error:
  assumes "0 < t" and "s \<le> t"
  shows "\<bar>valueOf (successRate s t) - 100 * (real s / real t)\<bar> \<le> 300 / 2 ^ 53"
proof -
  let ?r = "real s / real t"
  let ?q = "jsDivide (ofCount s) (ofCount t)"
  let ?Q = "valueOf ?q"
  let ?P = "valueOf (successRate s t)"
  have r0: "0 \<le> ?r" by simp
  have r1: "?r \<le> 1" using assms by simp
  have q: "?q = nearestDouble s t 0"
    by (simp add: jsDivide_def ofCount_def)
  have Q: "\<bar>?Q - ?r\<bar> \<le> ?r / 2 ^ 53"
    using nearestDouble_error [OF assms(1), of s 0] by (simp add: q)
  have p: "successRate s t = nearestDouble (mant ?q * 100) 1 (expo ?q)"
    by (simp add: successRate_def jsTimes_def ofCount_def)
  have "real (mant ?q * 100) / real 1 * 2 powi expo ?q = 100 * ?Q"
    by (simp add: valueOf_def)
  with nearestDouble_error [of 1 "mant ?q * 100" "expo ?q"]
  have P: "\<bar>?P - 100 * ?Q\<bar> \<le> 100 * ?Q / 2 ^ 53"
    by (simp only: p)
  have lin: "\<bar>P - 100 * r\<bar> \<le> 300 / 2 ^ 53"
    if "\<bar>Q - r\<bar> \<le> r / 2 ^ 53" "\<bar>P - 100 * Q\<bar> \<le> 100 * Q / 2 ^ 53" "0 \<le> r" "r \<le> 1"
    for P Q r :: real
    using that unfolding abs_le_iff by simp
  from Q P r0 r1 show ?thesis by (rule lin)
qed

lemma tenths_nearest:
  assumes "0 < t" and "s \<le> t" and "t < 2 ^ 32"
  shows "\<bar>real (toFixedTenths (successRate s t)) - 1000 * (real s / real t)\<bar> \<le> 1 / 2"
proof -
  let ?n = "toFixedTenths (successRate s t)"
  let ?P = "valueOf (successRate s t)"
  let ?y = "1000 * (real s / real t)"
  have tpos: "0 < real t" using assms(1) by simp
  have tsmall: "real t < 2 ^ 32"
    using assms(3) by (metis of_nat_less_iff of_nat_numeral of_nat_power)
  have ten: "\<bar>10 * P - 1000 * r\<bar> \<le> 3000 / 2 ^ 53" if "\<bar>P - 100 * r\<bar> \<le> 300 / 2 ^ 53"
    for P r :: real
    using that unfolding abs_le_iff by simp
  from successRate_error [OF assms(1,2)]
  have err: "\<bar>10 * ?P - ?y\<bar> \<le> 3000 / 2 ^ 53"
    by (rule ten)
  have "of_int (int ?n) \<le> 10 * ?P + 1 / 2" "10 * ?P + 1 / 2 < of_int (int ?n) + 1"
    unfolding toFixedTenths_floor by linarith+
  then have fl: "real ?n \<le> 10 * ?P + 1 / 2" "10 * ?P + 1 / 2 < real ?n + 1"
    by simp_all
  have scale: "d * (2 * real t) < 1" if "d \<le> 3000 / 2 ^ 53" for d :: real
  proof -
    have "d * (2 * real t) \<le> 3000 / 2 ^ 53 * (2 * real t)"
      using that tpos by (intro mult_right_mono) simp_all
    also have "\<dots> < 1" using tsmall by simp
    finally show ?thesis .
  qed
  have A: "?y * (2 * real t) = real (2000 * s)"
    using tpos by simp
  have B: "(real ?n + 1 / 2) * (2 * real t) = real ((2 * ?n + 1) * t)"
    by (simp add: algebra_simps)
  have C: "(real ?n - 1 / 2) * (2 * real t) = real (2 * ?n * t) - real t"
    by (simp add: algebra_simps)
  have upper: "?y \<le> real ?n + 1 / 2"
  proof (rule ccontr)
    assume "\<not> ?y \<le> real ?n + 1 / 2"
    then have gt: "real ?n + 1 / 2 < ?y" by simp
    then have "(real ?n + 1 / 2) * (2 * real t) < ?y * (2 * real t)"
      using tpos by (intro mult_strict_right_mono) simp_all
    then have "real ((2 * ?n + 1) * t) < real (2000 * s)"
      by (simp only: A B)
    then have "(2 * ?n + 1) * t < 2000 * s" by (simp only: of_nat_less_iff)
    then have "(2 * ?n + 1) * t + 1 \<le> 2000 * s" by simp
    then have "real ((2 * ?n + 1) * t + 1) \<le> real (2000 * s)" by (simp only: of_nat_le_iff)
    then have "real ((2 * ?n + 1) * t) + 1 \<le> real (2000 * s)" by simp
    then have one: "1 \<le> (?y - (real ?n + 1 / 2)) * (2 * real t)"
      unfolding left_diff_distrib A B by simp
    have "?y - (real ?n + 1 / 2) \<le> 3000 / 2 ^ 53"
      using fl err unfolding abs_le_iff by simp
    from scale [OF this] one show False by simp
  qed
  have lower: "real ?n - 1 / 2 \<le> ?y"
  proof (rule ccontr)
    assume "\<not> real ?n - 1 / 2 \<le> ?y"
    then have lt: "?y < real ?n - 1 / 2" by simp
    then have "?y * (2 * real t) < (real ?n - 1 / 2) * (2 * real t)"
      using tpos by (intro mult_strict_right_mono) simp_all
    then have "real (2000 * s) < real (2 * ?n * t) - real t"
      by (simp only: A C)
    then have "real (2000 * s + t) < real (2 * ?n * t)" by simp
    then have "2000 * s + t < 2 * ?n * t" by (simp only: of_nat_less_iff)
    then have "2000 * s + t + 1 \<le> 2 * ?n * t" by simp
    then have "real (2000 * s + t + 1) \<le> real (2 * ?n * t)" by (simp only: of_nat_le_iff)
    then have "real (2000 * s) + 1 \<le> real (2 * ?n * t) - real t" by simp
    then have one: "1 \<le> ((real ?n - 1 / 2) - ?y) * (2 * real t)"
      unfolding left_diff_distrib A C by simp
    have "(real ?n - 1 / 2) - ?y \<le> 3000 / 2 ^ 53"
      using fl err unfolding abs_le_iff by simp
    from scale [OF this] one show False by simp
  qed
  from upper lower show ?thesis unfolding abs_le_iff by linarith
qed


lemma rate_rounded:
  assumes "0 < t" and "s \<le> t" and "t < 2 ^ 32"
  shows "\<bar>real (toFixedTenths (successRate s t)) / 10 - real s / real t * 100\<bar> \<le> 1 / 20"
proof -
  have "\<bar>n / 10 - r * 100\<bar> \<le> 1 / 20" if "\<bar>n - 1000 * r\<bar> \<le> 1 / 2" for n r :: real
    using that unfolding abs_le_iff by linarith
  from this [OF tenths_nearest [OF assms]] show ?thesis .
qed

lemma mainTry_report:
  assumes "mainTry en (initialState articles contents) = Returned v st"
    and "0 < total (stats st)"
  shows "\<exists>s4. st = emit (LogSuccessRate (toFixed1 (successRate
                  (cheerioSuccess (stats s4) + puppeteerSuccess (stats s4)) (total (stats s4)))))
                s4"
proof -
  let ?s0 = "initialState articles contents"
  from assms(1) obtain s1 xs s2 where a: "authenticate en ?s0 = Returned () s1"
    and f: "findAll en s1 = Returned xs s2"
    and body: "(let filteredArticles = filter filterCallback xs;
                   s3 = s2\<lparr>stats := (stats s2)\<lparr>total := length filteredArticles\<rparr>\<rparr>
               in if total (stats s3) = 0 then Returned () s3
                  else andThen (forLoop en filteredArticles s3)
                         (\<lambda>_ s4.
                            let totalSuccess = cheerioSuccess (stats s4) + puppeteerSuccess (stats s4)
                            in Returned ()
                                 (emit (LogSuccessRate
                                          (toFixed1 (successRate totalSuccess (total (stats s4)))))
                                    s4))) = Returned v st"
    by (auto simp: mainTry_def andThen_Returned)
  show ?thesis
  proof (cases "length (filter filterCallback xs) = 0")
    case True
    with body assms(2) show ?thesis by (auto simp: Let_def)
  next
    case False
    with body show ?thesis by (auto simp: Let_def andThen_Returned)
  qed
qed

lemma noop_run:
  assumes "filter filterCallback (map (loadArticle contents) articles) = []"
  shows "(\<forall>x. LogSuccessRate x \<notin> set (trace (main en articles contents))) \<and>
         (dbFault en = (\<lambda>t. None) \<longrightarrow>
            trace (main en articles contents) = [DbAuthenticate, DbFindAll, DbClose, ProcessExit 0])"
  using assms
  by (auto simp: main_def mainTry_def authenticate_def findAll_def close_def dbCall_def
      initialState_def Let_def split: option.splits)

text \<open>
  C8. With \<open>t\<close> selected articles, \<open>t\<close> positive (and below \<open>2 ^ 32\<close>, as the
  length of every JavaScript array is), and \<open>s\<close> successes among them, the number that
  \<^verbatim>\<open>toFixed(1)\<close> prints is a tenth nearest to \<open>s / t * 100\<close>, in binary64 arithmetic
  as it is; for 3 successes out of 4 it prints 75.0. A completed run with a positive total
  ends its pass by logging that rate of its own counters. A run that selects nothing logs
  no rate: it returns before the loop and the division.
\<close>

theorem success_rate_report:
  "(0 < t \<and> s \<le> t \<and> t < 2 ^ 32 \<longrightarrow>
      \<bar>real (toFixedTenths (successRate s t)) / 10 - real s / real t * 100\<bar> \<le> 1 / 20) \<and>
   toFixed1 (successRate 3 4) = ''75.0'' \<and>
   (mainTry en (initialState articles contents) = Returned v st \<and> 0 < total (stats st) \<longrightarrow>
      cheerioSuccess (stats st) + puppeteerSuccess (stats st) \<le> total (stats st) \<and>
      last (trace st) =
        LogSuccessRate (toFixed1 (successRate
          (cheerioSuccess (stats st) + puppeteerSuccess (stats st)) (total (stats st))))) \<and>
   (filter filterCallback (map (loadArticle contents) articles) = [] \<longrightarrow>
      (\<forall>x. LogSuccessRate x \<notin> set (trace (main en articles contents))) \<and>
      (dbFault en = (\<lambda>t. None) \<longrightarrow>
         trace (main en articles contents) = [DbAuthenticate, DbFindAll, DbClose, ProcessExit 0]))"
proof (intro conjI impI)
  assume "0 < t \<and> s \<le> t \<and> t < 2 ^ 32"
  then have "0 < t" "s \<le> t" "t < 2 ^ 32" by simp_all
  then show "\<bar>real (toFixedTenths (successRate s t)) / 10 - real s / real t * 100\<bar> \<le> 1 / 20"
    by (rule rate_rounded)
next
  show "toFixed1 (successRate 3 4) = ''75.0''"
    by (simp add: rate_defs)
next
  assume h: "mainTry en (initialState articles contents) = Returned v st \<and> 0 < total (stats st)"
  from mainTry_counts [of en articles contents v st] h
  show "cheerioSuccess (stats st) + puppeteerSuccess (stats st) \<le> total (stats st)"
    by simp
  from mainTry_report [of en articles contents v st] h
  show "last (trace st) =
        LogSuccessRate (toFixed1 (successRate
          (cheerioSuccess (stats st) + puppeteerSuccess (stats st)) (total (stats st))))"
    by auto
next
  assume e: "filter filterCallback (map (loadArticle contents) articles) = []"
  from noop_run [OF e, of en]
  show "\<forall>x. LogSuccessRate x \<notin> set (trace (main en articles contents))" by simp
  assume "dbFault en = (\<lambda>t. None)"
  with noop_run [OF e, of en]
  show "trace (main en articles contents) = [DbAuthenticate, DbFindAll, DbClose, ProcessExit 0]"
    by simp
qed

theorem success_rate_report_witness:
  "\<bar>real (toFixedTenths (successRate 1 3)) / 10 - real 1 / real 3 * 100\<bar> \<le> 1 / 20 \<and>
   toFixedTenths (successRate 1 3) = 333 \<and>
   last (trace (stateOf (mainTry sampleEnv (initialState sampleArticles [])))) =
     LogSuccessRate ''33.3'' \<and>
   trace (main sampleEnv (take 2 sampleArticles)
            (contentsTable (main sampleEnv (take 2 sampleArticles) []))) =
     [DbAuthenticate, DbFindAll, DbClose, ProcessExit 0]"
proof -
  let ?m = "mainTry sampleEnv (initialState sampleArticles [])"
  have m: "?m = Returned () (stateOf ?m)" and t: "0 < total (stats (stateOf ?m))"
    and c: "cheerioSuccess (stats (stateOf ?m)) + puppeteerSuccess (stats (stateOf ?m)) = Suc 0"
      "total (stats (stateOf ?m)) = Suc (Suc (Suc 0))"
    by (simp_all add: sample_mainTry)
  have n: "toFixedTenths (successRate 1 3) = 333"
    by (simp add: rate_defs)
  have f: "filter filterCallback
      (map (loadArticle (contentsTable (main sampleEnv (take 2 sampleArticles) [])))
         (take 2 sampleArticles)) = []"
    by (simp add: first_run_table)
      (simp add: sampleArticles_def loadArticle_def filterCallback_def)
  have d: "dbFault sampleEnv = (\<lambda>t. None)"
    by (simp add: sampleEnv_def)
  from success_rate_report [of 3 1 sampleEnv sampleArticles "[]" "()" "stateOf ?m"]
    m t c rate_one_of_three
  have one: "\<bar>real (toFixedTenths (successRate 1 3)) / 10 - real 1 / real 3 * 100\<bar> \<le> 1 / 20"
    and two: "last (trace (stateOf ?m)) = LogSuccessRate ''33.3''"
    by simp_all
  from success_rate_report [of 3 1 sampleEnv "take 2 sampleArticles"
      "contentsTable (main sampleEnv (take 2 sampleArticles) [])"] f d
  have three: "trace (main sampleEnv (take 2 sampleArticles)
            (contentsTable (main sampleEnv (take 2 sampleArticles) []))) =
     [DbAuthenticate, DbFindAll, DbClose, ProcessExit 0]"
    by simp
  from one n two three show ?thesis by simp
qed

end
